theory Spec2Isabelle
  imports Complex_Main "HOL-Library.Sublist"
begin

chapter \<open>PillSee backend: a shallow embedding of the Python sources\<close>

section \<open>Python values\<close>

subsection \<open>Strings\<close>

text \<open>
  A Python \<open>str\<close> is a sequence of Unicode code points, and \<open>len\<close> counts code points.
  The sources are Czech, so a string is modelled as the list of its code points; \<open>u\<close>
  turns an ASCII literal into such a list, and letters with diacritics are written by
  their code point (a-acute is 225, c-caron is 269, and so on).
\<close>

type_synonym pystr = "nat list"

definition u :: "string \<Rightarrow> pystr" where
  "u s = map of_char s"

text \<open>
  \<open>str.strip()\<close> without argument removes leading and trailing white space, that is the
  code points for which \<open>str.isspace\<close> holds.
\<close>

definition is_space :: "nat \<Rightarrow> bool" where
  "is_space c \<longleftrightarrow>
     (9 \<le> c \<and> c \<le> 13) \<or> (28 \<le> c \<and> c \<le> 32) \<or> c = 133 \<or> c = 160 \<or> c = 5760
     \<or> (8192 \<le> c \<and> c \<le> 8202) \<or> c = 8232 \<or> c = 8233 \<or> c = 8239 \<or> c = 8287
     \<or> c = 12288"

definition py_strip :: "pystr \<Rightarrow> pystr" where
  "py_strip s = rev (dropWhile is_space (rev (dropWhile is_space s)))"

text \<open>
  \<open>str.lower()\<close> and \<open>str.upper()\<close> are the case mappings of the interpreter's Unicode
  tables, which are not part of the repository; they are taken from the environment
  (\<open>str_lower\<close> and \<open>str_upper\<close> below).
\<close>

text \<open>\<open>sub in s\<close> on strings: \<open>sub\<close> occurs in \<open>s\<close> as a contiguous run.\<close>

fun contains :: "pystr \<Rightarrow> pystr \<Rightarrow> bool" where
  "contains [] sub = (sub = [])"
| "contains (x # xs) sub = (prefix sub (x # xs) \<or> contains xs sub)"

text \<open>\<open>sep.join(parts)\<close>.\<close>

fun py_join :: "pystr \<Rightarrow> pystr list \<Rightarrow> pystr" where
  "py_join sep [] = []"
| "py_join sep [p] = p"
| "py_join sep (p # q # ps) = p @ sep @ py_join sep (q # ps)"

subsection \<open>Floating point\<close>

text \<open>
  A Python \<open>float\<close> is an IEEE 754 binary64 number. A finite float is modelled by its
  value, a real; comparisons are then those of the reals. What differs from real
  arithmetic is that a literal, a conversion from \<open>int\<close> and the result of an operation
  are rounded to the nearest binary64 number, a tie going to the even significand.

  \<open>binade x\<close> is the exponent \<open>e\<close> with \<open>2 ^ e \<le> |x| < 2 ^ (e + 1)\<close>, found by halving or
  doubling, and not below -1022, the exponent the subnormal numbers share. The numbers
  of that exponent are the multiples of \<open>2 ^ (e - 52)\<close>, and \<open>float64 x\<close> is the nearest
  of them. The model is that of magnitudes below \<open>2 ^ 1024\<close>, which is where Python
  floats are finite; infinities and NaN are not values of the model.
\<close>

fun halvings :: "nat \<Rightarrow> real \<Rightarrow> nat" where
  "halvings 0 x = 0"
| "halvings (Suc k) x = (if x < 2 then 0 else Suc (halvings k (x / 2)))"

fun doublings :: "nat \<Rightarrow> real \<Rightarrow> nat" where
  "doublings 0 x = 0"
| "doublings (Suc k) x = (if 1 \<le> x then 0 else Suc (doublings k (2 * x)))"

definition binade :: "real \<Rightarrow> int" where
  "binade x =
     (if 1 \<le> \<bar>x\<bar> then int (halvings 1023 \<bar>x\<bar>) else - int (doublings 1022 \<bar>x\<bar>))"

text \<open>The nearest integer, a tie going to the even one.\<close>

definition round_half_even :: "real \<Rightarrow> int" where
  "round_half_even x =
     (let n = \<lfloor>x\<rfloor>;
          f = x - of_int n
      in
      if f < 1 / 2 then n
      else if f > 1 / 2 then n + 1
      else if even n then n
      else n + 1)"

definition pow2 :: "int \<Rightarrow> real" where
  "pow2 k = (if 0 \<le> k then 2 ^ nat k else 1 / 2 ^ nat (- k))"

definition float64 :: "real \<Rightarrow> real" where
  "float64 x = (let q = pow2 (binade x - 52) in of_int (round_half_even (x / q)) * q)"

text \<open>
  \<open>round(x, 2)\<close> on a float: the exact value of \<open>x\<close> is rounded to two decimal places, a
  tie going to the even digit, and that decimal number is converted to the nearest
  float.
\<close>

definition round2 :: "real \<Rightarrow> real" where
  "round2 x = float64 (of_int (round_half_even (x * 100)) / 100)"

subsection \<open>Dynamically typed values\<close>

text \<open>
  Values that travel through \<open>Dict[str, Any]\<close>: JSON metadata of the vector store, the
  dictionary of a recognition result, the \<open>medication_info\<close> of the workflow state.
  \<open>PFloat\<close> carries the value of a finite float. A dictionary is an association list
  with distinct keys in insertion order.
\<close>

datatype pyval =
    PNone
  | PBool bool
  | PInt int
  | PFloat real
  | PStr pystr
  | PList "pyval list"
  | PDict "(pystr \<times> pyval) list"

type_synonym pydict = "(pystr \<times> pyval) list"

text \<open>Truthiness, as \<open>if v\<close> and \<open>not v\<close> read it.\<close>

fun truthy :: "pyval \<Rightarrow> bool" where
  "truthy PNone = False"
| "truthy (PBool b) = b"
| "truthy (PInt i) = (i \<noteq> 0)"
| "truthy (PFloat r) = (r \<noteq> 0)"
| "truthy (PStr s) = (s \<noteq> [])"
| "truthy (PList xs) = (xs \<noteq> [])"
| "truthy (PDict d) = (d \<noteq> [])"

text \<open>\<open>d.get(k)\<close>, \<open>k in d\<close> and \<open>d[k] = v\<close> (an existing key keeps its position).\<close>

definition dget :: "pydict \<Rightarrow> pystr \<Rightarrow> pyval option" where
  "dget d k = map_of d k"

definition dget_or :: "pydict \<Rightarrow> pystr \<Rightarrow> pyval \<Rightarrow> pyval" where
  "dget_or d k dflt = (case map_of d k of None \<Rightarrow> dflt | Some v \<Rightarrow> v)"

definition dhas :: "pydict \<Rightarrow> pystr \<Rightarrow> bool" where
  "dhas d k \<longleftrightarrow> map_of d k \<noteq> None"

fun dset :: "pydict \<Rightarrow> pystr \<Rightarrow> pyval \<Rightarrow> pydict" where
  "dset [] k v = [(k, v)]"
| "dset ((k', v') # d) k v = (if k' = k then (k, v) # d else (k', v') # dset d k v)"

text \<open>The number a value stands for in arithmetic (\<open>bool\<close> is a subclass of \<open>int\<close>).\<close>

fun num_of :: "pyval \<Rightarrow> real option" where
  "num_of (PInt i) = Some (of_int i)"
| "num_of (PFloat r) = Some r"
| "num_of (PBool b) = Some (if b then 1 else 0)"
| "num_of v = None"

fun type_name :: "pyval \<Rightarrow> pystr" where
  "type_name PNone = u ''NoneType''"
| "type_name (PBool b) = u ''bool''"
| "type_name (PInt i) = u ''int''"
| "type_name (PFloat r) = u ''float''"
| "type_name (PStr s) = u ''str''"
| "type_name (PList xs) = u ''list''"
| "type_name (PDict d) = u ''dict''"

text \<open>An \<open>Optional[str]\<close> as a dynamic value, and the truthiness of one.\<close>

definition opt_val :: "pystr option \<Rightarrow> pyval" where
  "opt_val v = (case v of None \<Rightarrow> PNone | Some s \<Rightarrow> PStr s)"

definition present :: "pystr option \<Rightarrow> bool" where
  "present v \<longleftrightarrow> (case v of None \<Rightarrow> False | Some s \<Rightarrow> s \<noteq> [])"

text \<open>
  Exceptions carry their class and their message (\<open>str(e)\<close>); the handlers of the
  sources are all \<open>except Exception\<close> and only read the message.
\<close>

datatype exn_class =
  AttributeError | KeyError | TypeError | ValueError | OverflowError | FileNotFoundError
  | ValidationError | HTTPException | InvalidUpdateError | ExternalError

datatype py_exn = Exn exn_class pystr

fun str_exn :: "py_exn \<Rightarrow> pystr" where
  "str_exn (Exn c msg) = msg"

text \<open>The message of the \<open>AttributeError\<close> for a missing attribute or method.\<close>

definition no_attribute :: "pystr \<Rightarrow> pystr \<Rightarrow> py_exn" where
  "no_attribute tname attr =
     Exn AttributeError ([39] @ tname @ [39] @ u '' object has no attribute '' @ [39] @ attr @ [39])"

section \<open>app/models.py\<close>

text \<open>\<open>MedicationInfo\<close>: fourteen optional text fields, all defaulting to \<open>None\<close>.\<close>

record medication_info =
  mi_name :: "pystr option"
  mi_active_ingredient :: "pystr option"
  mi_strength :: "pystr option"
  mi_form :: "pystr option"
  mi_manufacturer :: "pystr option"
  mi_registration_number :: "pystr option"
  mi_atc_code :: "pystr option"
  mi_indication :: "pystr option"
  mi_contraindication :: "pystr option"
  mi_side_effects :: "pystr option"
  mi_interactions :: "pystr option"
  mi_dosage :: "pystr option"
  mi_price :: "pystr option"
  mi_prescription_required :: "pystr option"

section \<open>app/data/sukl\_processor.py\<close>

subsection \<open>Tables\<close>

text \<open>
  A cell of a data frame is a scalar, kept by its \<open>str()\<close> rendering, or one of the
  three missing values, for which \<open>pd.notna\<close> is false: \<open>NaN\<close> (what \<open>read_csv\<close> makes
  of an empty field), \<open>None\<close> and \<open>pd.NA\<close>. A row maps column labels to cells.
\<close>

datatype cell = NaN | PyNone | NA | Cell pystr

text \<open>\<open>str(value)\<close>, which is also what \<open>astype(str)\<close> makes of a cell.\<close>

definition cell_str :: "cell \<Rightarrow> pystr" where
  "cell_str c =
     (case c of
        NaN \<Rightarrow> u ''nan''
      | PyNone \<Rightarrow> u ''None''
      | NA \<Rightarrow> u ''<NA>''
      | Cell s \<Rightarrow> s)"

definition notna :: "cell \<Rightarrow> bool" where
  "notna c = (case c of Cell s \<Rightarrow> True | _ \<Rightarrow> False)"

record dataframe =
  df_columns :: "pystr list"
  df_object_columns :: "pystr list"
    \<comment> \<open>\<open>df.select_dtypes(include=['object']).columns\<close>: the text columns\<close>
  df_rows :: "(pystr \<rightharpoonup> cell) list"

subsection \<open>\<open>load_sukl_csv\<close>\<close>

text \<open>
  The file system, the encoding detector and the parser of pandas are outside the
  repository. \<open>chardet_detect\<close> is \<open>open\<close>, \<open>read\<close> and \<open>chardet.detect\<close> (the encoding,
  which may be \<open>None\<close>, and the confidence); \<open>parse_csv\<close> is what \<open>pandas.read_csv\<close>
  makes of the file at a path under an encoding and a separator.
\<close>

record csv_env =
  path_exists :: "pystr \<Rightarrow> bool"
  chardet_detect :: "pystr \<Rightarrow> py_exn + (pystr option \<times> real)"
  parse_csv :: "pystr \<Rightarrow> pystr \<Rightarrow> pystr \<Rightarrow> py_exn + dataframe"

text \<open>
  \<open>pandas.read_csv\<close> has a fixed list of parameters and no \<open>**kwargs\<close>: a call with any
  other keyword raises \<open>TypeError\<close> before anything is read. The list is that of
  pandas 1.x and 2.x together; byte-level error handling is \<open>encoding_errors\<close>.
\<close>

definition read_csv_parameters :: "pystr list" where
  "read_csv_parameters = map u
     [''filepath_or_buffer'', ''sep'', ''delimiter'', ''header'', ''names'', ''index_col'',
      ''usecols'', ''squeeze'', ''prefix'', ''mangle_dupe_cols'', ''dtype'', ''engine'',
      ''converters'', ''true_values'', ''false_values'', ''skipinitialspace'', ''skiprows'',
      ''skipfooter'', ''nrows'', ''na_values'', ''keep_default_na'', ''na_filter'', ''verbose'',
      ''skip_blank_lines'', ''parse_dates'', ''infer_datetime_format'', ''keep_date_col'',
      ''date_parser'', ''date_format'', ''dayfirst'', ''cache_dates'', ''iterator'',
      ''chunksize'', ''compression'', ''thousands'', ''decimal'', ''lineterminator'',
      ''quotechar'', ''quoting'', ''doublequote'', ''escapechar'', ''comment'', ''encoding'',
      ''encoding_errors'', ''dialect'', ''error_bad_lines'', ''warn_bad_lines'',
      ''on_bad_lines'', ''delim_whitespace'', ''low_memory'', ''memory_map'',
      ''float_precision'', ''storage_options'', ''dtype_backend'']"

definition unexpected_keyword :: "pystr \<Rightarrow> py_exn" where
  "unexpected_keyword k =
     Exn TypeError (u ''read_csv() got an unexpected keyword argument '' @ [39] @ k @ [39])"

text \<open>A call \<open>pd.read_csv(file_path, encoding=..., sep=..., ...)\<close> with its keywords.\<close>

definition pd_read_csv :: "csv_env \<Rightarrow> pystr \<Rightarrow> pystr \<Rightarrow> pystr \<Rightarrow> pystr list \<Rightarrow> py_exn + dataframe" where
  "pd_read_csv F file_path encoding sep keywords =
     (case filter (\<lambda>k. k \<notin> set read_csv_parameters) keywords of
        k # ks \<Rightarrow> Inl (unexpected_keyword k)
      | [] \<Rightarrow> parse_csv F file_path encoding sep)"

text \<open>\<open>_detect_encoding\<close>: the detected encoding, only when the confidence is above 0.8.\<close>

definition detect_encoding :: "csv_env \<Rightarrow> pystr \<Rightarrow> pystr option" where
  "detect_encoding F file_path =
     (case chardet_detect F file_path of
        Inl e \<Rightarrow> None
      | Inr (encoding, confidence) \<Rightarrow> if confidence > float64 (8 / 10) then encoding else None)"

text \<open>
  \<open>_clean_czech_text\<close>: in the text columns every cell is rendered by \<open>astype(str)\<close> and
  trimmed, and the strings of the list become \<open>pd.NA\<close>. So \<open>NaN\<close> becomes \<open>pd.NA\<close> by way
  of the string \<open>nan\<close>, while \<open>None\<close> and \<open>pd.NA\<close> become the texts \<open>None\<close> and \<open><NA>\<close>.
  Then the rows that are missing in every column are dropped.
\<close>

definition clean_cell :: "cell \<Rightarrow> cell" where
  "clean_cell c =
     (let s = py_strip (cell_str c) in
      if s \<in> set [[], u ''nan'', u ''NaN'', u ''null'', u ''NULL''] then NA else Cell s)"

definition clean_row :: "pystr list \<Rightarrow> (pystr \<rightharpoonup> cell) \<Rightarrow> (pystr \<rightharpoonup> cell)" where
  "clean_row object_columns row =
     (\<lambda>col. if col \<in> set object_columns then map_option clean_cell (row col) else row col)"

definition clean_czech_text :: "dataframe \<Rightarrow> dataframe" where
  "clean_czech_text df =
     df \<lparr> df_rows :=
       filter
         (\<lambda>row. \<not> list_all (\<lambda>col. case row col of None \<Rightarrow> False | Some c \<Rightarrow> \<not> notna c)
                   (df_columns df))
         (map (clean_row (df_object_columns df)) (df_rows df)) \<rparr>"

definition supported_encodings :: "pystr list" where
  "supported_encodings = [u ''windows-1250'', u ''utf-8'', u ''iso-8859-2'', u ''cp1252'']"

text \<open>
  The inner loop over the separators: the first parse with more than five columns is
  returned, cleaned; a parse that raises and a parse with five columns or fewer go on
  to the next separator.
\<close>

fun try_separators :: "csv_env \<Rightarrow> pystr \<Rightarrow> pystr \<Rightarrow> pystr list \<Rightarrow> dataframe option" where
  "try_separators F file_path encoding [] = None"
| "try_separators F file_path encoding (separator # separators) =
     (case pd_read_csv F file_path encoding separator [u ''encoding'', u ''sep'', u ''low_memory''] of
        Inl e \<Rightarrow> try_separators F file_path encoding separators
      | Inr df \<Rightarrow>
          if length (df_columns df) > 5 then Some (clean_czech_text df)
          else try_separators F file_path encoding separators)"

text \<open>The outer loop over \<open>[detected_encoding] + self.supported_encodings\<close>.\<close>

fun try_encodings :: "csv_env \<Rightarrow> pystr \<Rightarrow> pystr option list \<Rightarrow> dataframe option" where
  "try_encodings F file_path [] = None"
| "try_encodings F file_path (None # encodings) = try_encodings F file_path encodings"
| "try_encodings F file_path (Some encoding # encodings) =
     (case try_separators F file_path encoding [u '','', u '';'', [9]] of
        Some df \<Rightarrow> Some df
      | None \<Rightarrow> try_encodings F file_path encodings)"

definition error_not_found_head :: pystr where
  "error_not_found_head =
     u ''S'' @ [218] @ u ''KL CSV soubor nenalezen: ''"

definition error_load_head :: pystr where
  "error_load_head =
     u ''Nepoda'' @ [345] @ u ''ilo se na'' @ [269, 237] @ u ''st S'' @ [218]
     @ u ''KL data: ''"

text \<open>
  \<open>load_sukl_csv\<close>. The fallback passes \<open>errors='ignore'\<close> to \<open>read_csv\<close>, and its
  handler turns every exception into \<open>ValueError\<close>.
\<close>

definition load_sukl_csv :: "csv_env \<Rightarrow> pystr \<Rightarrow> py_exn + dataframe" where
  "load_sukl_csv F file_path =
     (if \<not> path_exists F file_path
      then Inl (Exn FileNotFoundError (error_not_found_head @ file_path))
      else
        (case try_encodings F file_path
                (detect_encoding F file_path # map Some supported_encodings) of
           Some df \<Rightarrow> Inr df
         | None \<Rightarrow>
             (case pd_read_csv F file_path (u ''windows-1250'') (u '';'')
                     [u ''encoding'', u ''sep'', u ''errors'', u ''low_memory''] of
                Inl e \<Rightarrow> Inl (Exn ValueError (error_load_head @ str_exn e))
              | Inr df \<Rightarrow> Inr (clean_czech_text df))))"

subsection \<open>\<open>extract_medication_info\<close>\<close>

definition column_mapping :: "(pystr \<times> pystr list) list" where
  "column_mapping =
    [(u ''name'', [u ''NAZEV'', u ''nazev'', u ''n'' @ [225] @ u ''zev'']),
     (u ''active_ingredient'',
        [u ''UCINNE_LATKY'', u ''ucinne_latky'',
         [250, 269] @ u ''inn'' @ [233] @ u ''_l'' @ [225] @ u ''tky'']),
     (u ''strength'', [u ''SILA'', u ''sila'', u ''s'' @ [237] @ u ''la'']),
     (u ''form'',
        [u ''LEKOVA_FORMA'', u ''lekova_forma'',
         u ''l'' @ [233] @ u ''kov'' @ [225] @ u ''_forma'', u ''FORMA'']),
     (u ''manufacturer'',
        [u ''DRZITEL_ROZHODNUTI'', u ''drzitel_rozhodnuti'',
         u ''dr'' @ [382] @ u ''itel_rozhodnut'' @ [237], u ''DRZ'']),
     (u ''registration_number'',
        [u ''REGISTRACNI_CISLO'', u ''registracni_cislo'',
         u ''registra'' @ [269] @ u ''n'' @ [237] @ u ''_'' @ [269, 237] @ u ''slo'', u ''REG'']),
     (u ''atc_code'',
        [u ''ATC_KOD'', u ''atc_kod'', u ''atc_k'' @ [243] @ u ''d'', u ''ATC_WHO'']),
     (u ''indication'', [u ''INDIKACE'', u ''indikace'']),
     (u ''contraindication'', [u ''KONTRAINDIKACE'', u ''kontraindikace'']),
     (u ''side_effects'',
        [u ''NEZADOUCI_UCINKY'', u ''nezadouci_ucinky'',
         u ''ne'' @ [382, 225] @ u ''douc'' @ [237] @ u ''_'' @ [250, 269] @ u ''inky'']),
     (u ''interactions'', [u ''INTERAKCE'', u ''interakce'']),
     (u ''dosage'',
        [u ''DAVKOVANI'', u ''davkovani'', u ''d'' @ [225] @ u ''vkov'' @ [225] @ u ''n'' @ [237]]),
     (u ''price'', [u ''CENA'', u ''cena'']),
     (u ''prescription_required'', [u ''PREDPISOVOST'', u ''predpisovost'', u ''VYDEJ'']),
     (u ''packaging'', [u ''BALENI'']),
     (u ''route'', [u ''CESTA'']),
     (u ''supplement'', [u ''DOPLNEK'']),
     (u ''container'', [u ''OBAL'']),
     (u ''code'', [u ''KOD_SUKL'']),
     (u ''human'', [u ''H'']),
     (u ''expiration'', [u ''V_PLATDO'']),
     (u ''unlimited'', [u ''NEOMEZ'']),
     (u ''ean'', [u ''EAN''])]"

text \<open>
  The inner loop \<open>for col in possible_cols: if col in available_columns: ...; break\<close>:
  the first alias that is a column of the table.
\<close>

fun first_available :: "pystr list \<Rightarrow> pystr list \<Rightarrow> pystr option" where
  "first_available available [] = None"
| "first_available available (col # cols) =
     (if col \<in> set available then Some col else first_available available cols)"

text \<open>The outer loop: \<open>actual_mapping\<close> has an entry for every field with such an alias.\<close>

fun resolve_columns :: "pystr list \<Rightarrow> (pystr \<times> pystr list) list \<Rightarrow> (pystr \<times> pystr) list" where
  "resolve_columns available [] = []"
| "resolve_columns available ((our_field, possible_cols) # rest) =
     (case first_available available possible_cols of
        None \<Rightarrow> resolve_columns available rest
      | Some col \<Rightarrow> (our_field, col) # resolve_columns available rest)"

definition actual_mapping :: "pystr list \<Rightarrow> (pystr \<times> pystr) list" where
  "actual_mapping available = resolve_columns available column_mapping"

text \<open>
  One cell of \<open>med_data\<close>: \<open>value = row.get(sukl_col, '')\<close>, kept stripped when
  \<open>pd.notna(value) and str(value).strip()\<close>, otherwise \<open>None\<close>.
\<close>

definition cell_text :: "(pystr \<rightharpoonup> cell) \<Rightarrow> pystr \<Rightarrow> pystr option" where
  "cell_text row sukl_col =
     (case (case row sukl_col of None \<Rightarrow> Cell [] | Some c \<Rightarrow> c) of
        Cell s \<Rightarrow> if py_strip s \<noteq> [] then Some (py_strip s) else None
      | _ \<Rightarrow> None)"

definition med_data :: "(pystr \<times> pystr) list \<Rightarrow> (pystr \<rightharpoonup> cell) \<Rightarrow> (pystr \<times> pystr option) list" where
  "med_data mapping row = map (\<lambda>(our_field, sukl_col). (our_field, cell_text row sukl_col)) mapping"

text \<open>\<open>med_data.get(field)\<close>: \<open>None\<close> for a field without entry and for a \<open>None\<close> entry.\<close>

definition md_get :: "(pystr \<times> pystr option) list \<Rightarrow> pystr \<Rightarrow> pystr option" where
  "md_get md field = (case map_of md field of None \<Rightarrow> None | Some v \<Rightarrow> v)"

text \<open>
  \<open>MedicationInfo(**med_data)\<close>: the declared fields are read from the dictionary, the
  others (\<open>packaging\<close>, \<open>route\<close>, ...) are ignored by the model class. Every value is a
  string or \<open>None\<close>, so the construction does not fail.
\<close>

definition MedicationInfo :: "(pystr \<times> pystr option) list \<Rightarrow> medication_info" where
  "MedicationInfo md =
     \<lparr> mi_name = md_get md (u ''name''),
       mi_active_ingredient = md_get md (u ''active_ingredient''),
       mi_strength = md_get md (u ''strength''),
       mi_form = md_get md (u ''form''),
       mi_manufacturer = md_get md (u ''manufacturer''),
       mi_registration_number = md_get md (u ''registration_number''),
       mi_atc_code = md_get md (u ''atc_code''),
       mi_indication = md_get md (u ''indication''),
       mi_contraindication = md_get md (u ''contraindication''),
       mi_side_effects = md_get md (u ''side_effects''),
       mi_interactions = md_get md (u ''interactions''),
       mi_dosage = md_get md (u ''dosage''),
       mi_price = md_get md (u ''price''),
       mi_prescription_required = md_get md (u ''prescription_required'') \<rparr>"

text \<open>
  The body of the row loop: \<open>None\<close> is \<open>continue\<close> (the row is skipped), \<open>Some\<close> the
  record appended to \<open>medications\<close>.
\<close>

definition extract_row :: "(pystr \<times> pystr) list \<Rightarrow> (pystr \<rightharpoonup> cell) \<Rightarrow> medication_info option" where
  "extract_row mapping row =
     (let md = med_data mapping row in
      if \<not> present (md_get md (u ''name'')) then None
      else if \<not> present (md_get md (u ''active_ingredient'')) \<and> \<not> present (md_get md (u ''atc_code''))
      then None
      else Some (MedicationInfo md))"

fun extract_rows :: "(pystr \<times> pystr) list \<Rightarrow> (pystr \<rightharpoonup> cell) list \<Rightarrow> medication_info list" where
  "extract_rows mapping [] = []"
| "extract_rows mapping (row # rows) =
     (case extract_row mapping row of
        None \<Rightarrow> extract_rows mapping rows
      | Some medication \<Rightarrow> medication # extract_rows mapping rows)"

definition extract_medication_info :: "dataframe \<Rightarrow> medication_info list" where
  "extract_medication_info df = extract_rows (actual_mapping (df_columns df)) (df_rows df)"

subsection \<open>\<open>create_embedding_texts\<close>\<close>

definition label_name :: pystr where
  "label_name = u ''N'' @ [225] @ u ''zev: ''"

definition label_active_ingredient :: pystr where
  "label_active_ingredient = [218, 269] @ u ''inn'' @ [225] @ u '' l'' @ [225] @ u ''tka: ''"

definition label_atc_code :: pystr where
  "label_atc_code = u ''ATC k'' @ [243] @ u ''d: ''"

definition label_strength :: pystr where
  "label_strength = u ''S'' @ [237] @ u ''la: ''"

definition label_form :: pystr where
  "label_form = u ''L'' @ [233] @ u ''kov'' @ [225] @ u '' forma: ''"

definition label_manufacturer :: pystr where
  "label_manufacturer = u ''V'' @ [253] @ u ''robce: ''"

definition label_indication :: pystr where
  "label_indication = u ''Indikace: ''"

definition label_contraindication :: pystr where
  "label_contraindication = u ''Kontraindikace: ''"

definition label_side_effects :: pystr where
  "label_side_effects = u ''Ne'' @ [382, 225] @ u ''douc'' @ [237] @ u '' '' @ [250, 269] @ u ''inky: ''"

definition label_interactions :: pystr where
  "label_interactions = u ''Interakce: ''"

definition label_dosage :: pystr where
  "label_dosage = u ''D'' @ [225] @ u ''vkov'' @ [225] @ u ''n'' @ [237] @ u '': ''"

text \<open>\<open>if v: text_parts.append(f"Label: {v}")\<close>.\<close>

definition append_if :: "pystr list \<Rightarrow> pystr \<Rightarrow> pystr option \<Rightarrow> pystr list" where
  "append_if text_parts label v =
     (case v of
        None \<Rightarrow> text_parts
      | Some s \<Rightarrow> if s \<noteq> [] then text_parts @ [label @ s] else text_parts)"

definition text_parts :: "medication_info \<Rightarrow> pystr list" where
  "text_parts med =
     (let p0 = [];
          p1 = append_if p0 label_name (mi_name med);
          p2 = (if present (mi_active_ingredient med)
                then append_if p1 label_active_ingredient (mi_active_ingredient med)
                else append_if p1 label_atc_code (mi_atc_code med));
          p3 = append_if p2 label_strength (mi_strength med);
          p4 = append_if p3 label_form (mi_form med);
          p5 = append_if p4 label_manufacturer (mi_manufacturer med);
          p6 = append_if p5 label_indication (mi_indication med);
          p7 = append_if p6 label_contraindication (mi_contraindication med);
          p8 = append_if p7 label_side_effects (mi_side_effects med);
          p9 = append_if p8 label_interactions (mi_interactions med);
          p10 = append_if p9 label_dosage (mi_dosage med)
      in p10)"

record embedding_document =
  doc_content :: pystr
  doc_metadata :: pydict

definition document_of :: "medication_info \<Rightarrow> embedding_document" where
  "document_of med =
     \<lparr> doc_content = py_join [10] (text_parts med),
       doc_metadata =
         [(u ''name'', opt_val (mi_name med)),
          (u ''active_ingredient'', opt_val (mi_active_ingredient med)),
          (u ''registration_number'', opt_val (mi_registration_number med)),
          (u ''atc_code'', opt_val (mi_atc_code med)),
          (u ''prescription_required'', opt_val (mi_prescription_required med))] \<rparr>"

definition create_embedding_texts :: "medication_info list \<Rightarrow> embedding_document list" where
  "create_embedding_texts medications = map document_of medications"

text \<open>
  The same content in the words of the specification: the slots in their fixed order,
  each a label and a field, the second slot holding the active ingredient or, when
  that is absent, the ATC code; a slot whose field is absent gives no line.
\<close>

definition content_slots :: "medication_info \<Rightarrow> (pystr \<times> pystr option) list" where
  "content_slots med =
     [(label_name, mi_name med),
      (if present (mi_active_ingredient med)
       then (label_active_ingredient, mi_active_ingredient med)
       else (label_atc_code, mi_atc_code med)),
      (label_strength, mi_strength med),
      (label_form, mi_form med),
      (label_manufacturer, mi_manufacturer med),
      (label_indication, mi_indication med),
      (label_contraindication, mi_contraindication med),
      (label_side_effects, mi_side_effects med),
      (label_interactions, mi_interactions med),
      (label_dosage, mi_dosage med)]"

fun slot_lines :: "(pystr \<times> pystr option) list \<Rightarrow> pystr list" where
  "slot_lines [] = []"
| "slot_lines ((label, v) # slots) =
     (if present v then (label @ the v) # slot_lines slots else slot_lines slots)"

text \<open>The record of the scenario: PARALEN 500MG.\<close>

definition no_medication :: medication_info where
  "no_medication =
     \<lparr> mi_name = None, mi_active_ingredient = None, mi_strength = None, mi_form = None,
       mi_manufacturer = None, mi_registration_number = None, mi_atc_code = None,
       mi_indication = None, mi_contraindication = None, mi_side_effects = None,
       mi_interactions = None, mi_dosage = None, mi_price = None,
       mi_prescription_required = None \<rparr>"

text \<open>
  The validity of a row in the words of the specification: the value of a canonical
  field in a row is the text of the first alias column the table has, when that text is
  not null and not blank after trimming; a row is valid when its name is present and
  its active ingredient or its ATC code is.
\<close>

definition mapped_field :: "pystr list \<Rightarrow> (pystr \<rightharpoonup> cell) \<Rightarrow> pystr \<Rightarrow> pystr option" where
  "mapped_field available row field =
     (case map_of column_mapping field of
        None \<Rightarrow> None
      | Some aliases \<Rightarrow>
          (case first_available available aliases of
             None \<Rightarrow> None
           | Some col \<Rightarrow>
               (case row col of
                  Some (Cell s) \<Rightarrow> if py_strip s = [] then None else Some (py_strip s)
                | _ \<Rightarrow> None)))"

definition row_valid :: "pystr list \<Rightarrow> (pystr \<rightharpoonup> cell) \<Rightarrow> bool" where
  "row_valid available row \<longleftrightarrow>
     present (mapped_field available row (u ''name''))
     \<and> (present (mapped_field available row (u ''active_ingredient''))
          \<or> present (mapped_field available row (u ''atc_code'')))"

definition paralen :: medication_info where
  "paralen = no_medication
     \<lparr> mi_name := Some (u ''PARALEN 500MG''),
       mi_active_ingredient := Some (u ''Paracetamolum''),
       mi_strength := Some (u ''500 mg''),
       mi_form := Some (u ''Potahovan'' @ [233] @ u '' tablety'') \<rparr>"

section \<open>External services\<close>

text \<open>
  The hosted models, the vector database, the libraries around them and the Unicode
  tables of the interpreter are not part of the repository. They enter as the fields
  of an environment: what a call returns, or the exception it raises. Every theorem
  below holds for every environment.
\<close>

text \<open>
  A row of the \<open>match_medications\<close> function, with the defaults of
  \<open>_direct_similarity_search\<close> applied (\<open>row.get("metadata", {})\<close>,
  \<open>row.get("similarity", 0.0)\<close>); the metadata is a JSON object.
\<close>

record match_row =
  row_id :: pyval
  row_content :: pystr
  row_metadata :: pydict
  row_similarity :: real

text \<open>
  \<open>VisionResult\<close> as its constructor validates it: six text fields, a score, and three
  optional fields.
\<close>

record vision_result =
  vr_name :: pystr
  vr_active_ingredient :: pystr
  vr_strength :: pystr
  vr_form :: pystr
  vr_manufacturer :: pystr
  vr_registration_number :: pystr
  vr_confidence_score :: real
  vr_warning :: "pystr option"
  vr_validated :: "bool option"
  vr_sukl_matches :: "pydict list option"

record env =
  store_init :: "py_exn option"
    \<comment> \<open>\<open>MedicationVectorStore()\<close>: the exception it raises, if any\<close>
  match_rpc :: "pystr \<Rightarrow> nat \<Rightarrow> py_exn + match_row list"
    \<comment> \<open>\<open>embed_query\<close> and the \<open>match_medications\<close> call: the rows, for a query and a limit\<close>
  vision_init :: "py_exn option"
    \<comment> \<open>\<open>VisionProcessor()\<close>\<close>
  process_image :: "pystr \<Rightarrow> vision_result"
    \<comment> \<open>\<open>process_medication_image\<close>, which catches every exception of its own\<close>
  text_init :: "py_exn option"
    \<comment> \<open>\<open>TextProcessor(vector_store)\<close>\<close>
  qa_run :: "pystr \<Rightarrow> py_exn + pystr"
    \<comment> \<open>\<open>_create_retrieval_chain()\<close> and \<open>qa_chain.run(processed_query)\<close>\<close>
  py_repr :: "pyval \<Rightarrow> pystr"
    \<comment> \<open>\<open>str(v)\<close> of a number, a list or a dictionary\<close>
  pydantic_message :: "pyval list \<Rightarrow> pystr"
    \<comment> \<open>the message of the \<open>ValidationError\<close> for a list that is not a list of strings\<close>
  str_lower :: "pystr \<Rightarrow> pystr"
    \<comment> \<open>\<open>s.lower()\<close>\<close>
  str_upper :: "pystr \<Rightarrow> pystr"
    \<comment> \<open>\<open>s.upper()\<close>\<close>
  update_message :: "pystr \<Rightarrow> pystr"
    \<comment> \<open>the message of the graph library's \<open>InvalidUpdateError\<close> for a node that returned a string\<close>

text \<open>\<open>f"{v}"\<close>.\<close>

definition fstr :: "env \<Rightarrow> pyval \<Rightarrow> pystr" where
  "fstr E v =
     (case v of
        PStr s \<Rightarrow> s
      | PNone \<Rightarrow> u ''None''
      | PBool b \<Rightarrow> (if b then u ''True'' else u ''False'')
      | _ \<Rightarrow> py_repr E v)"

section \<open>app/database/vector\_store.py\<close>

definition placeholder :: pystr where
  "placeholder =
     u ''nen'' @ [237] @ u '' viditeln'' @ [233]"

definition warning_not_found :: pystr where
  "warning_not_found =
     u ''L'' @ [233] @ u ''k nebyl nalezen v datab'' @ [225] @ u ''zi S'' @ [218]
     @ u ''KL. Ov'' @ [283, 345] @ u ''te spr'' @ [225] @ u ''vnost informac'' @ [237]
     @ u ''.''"

definition similarity_threshold :: real where
  "similarity_threshold = float64 (6 / 10)"

text \<open>
  \<open>_direct_similarity_search\<close>: the rows at or above the threshold, in the order of the
  store; an exception of the remote call gives the empty list.
\<close>

definition direct_similarity_search :: "env \<Rightarrow> pystr \<Rightarrow> nat \<Rightarrow> real \<Rightarrow> match_row list" where
  "direct_similarity_search E query limit threshold =
     (case match_rpc E query limit of
        Inl e \<Rightarrow> []
      | Inr rows \<Rightarrow> filter (\<lambda>row. row_similarity row \<ge> threshold) rows)"

definition search_medications :: "env \<Rightarrow> pystr \<Rightarrow> nat \<Rightarrow> real \<Rightarrow> match_row list" where
  "search_medications E query limit threshold =
     (if py_strip query = [] then [] else direct_similarity_search E query limit threshold)"

text \<open>
  The enrichment loop of \<open>validate_medication_info\<close>:
  \<open>if key not in vision_result or vision_result[key] == "neni viditelne"\<close>.
\<close>

fun backfill :: "pydict \<Rightarrow> pydict \<Rightarrow> pydict" where
  "backfill [] vision_result = vision_result"
| "backfill ((key, val) # best_metadata) vision_result =
     backfill best_metadata
       (if \<not> dhas vision_result key \<or> dget vision_result key = Some (PStr placeholder)
        then dset vision_result key val else vision_result)"

text \<open>
  The search query of \<open>validate_medication_info\<close>. \<open>vision_result['active_ingredient']\<close>
  raises \<open>KeyError\<close> for a missing key; \<open>+=\<close> on a name that is not a string raises
  \<open>TypeError\<close>, except on a list, which it extends, and then \<open>query.strip()\<close> in
  \<open>search_medications\<close> raises \<open>AttributeError\<close>, as it does for every name that is
  not a string.
\<close>

definition build_search_query :: "env \<Rightarrow> pydict \<Rightarrow> pyval \<Rightarrow> py_exn + pystr" where
  "build_search_query E vision_result name =
     (if dget_or vision_result (u ''active_ingredient'') (PStr []) \<noteq> PStr placeholder then
        (case dget vision_result (u ''active_ingredient'') of
           None \<Rightarrow> Inl (Exn KeyError ([39] @ u ''active_ingredient'' @ [39]))
         | Some ai \<Rightarrow>
             (case name of
                PStr s \<Rightarrow> Inr (s @ u '' '' @ fstr E ai)
              | PList xs \<Rightarrow> Inl (no_attribute (u ''list'') (u ''strip''))
              | _ \<Rightarrow>
                  Inl (Exn TypeError
                    (u ''unsupported operand type(s) for +=: '' @ [39] @ type_name name @ [39]
                     @ u '' and '' @ [39] @ u ''str'' @ [39]))))
      else
        (case name of
           PStr s \<Rightarrow> Inr s
         | _ \<Rightarrow> Inl (no_attribute (type_name name) (u ''strip''))))"

definition validate_medication_info :: "env \<Rightarrow> pydict \<Rightarrow> py_exn + pydict" where
  "validate_medication_info E vision_result =
     (let name = dget_or vision_result (u ''name'') PNone in
      if \<not> truthy name \<or> name = PStr placeholder then Inr vision_result
      else
        (case build_search_query E vision_result name of
           Inl e \<Rightarrow> Inl e
         | Inr search_query \<Rightarrow>
             (case search_medications E search_query 3 similarity_threshold of
                best_match # others \<Rightarrow>
                  Inr (backfill (row_metadata best_match)
                    (dset
                      (dset vision_result (u ''sukl_matches'')
                        (PList (map (\<lambda>m. PDict (row_metadata m)) (best_match # others))))
                      (u ''validated'') (PBool True)))
              | [] \<Rightarrow>
                  Inr (dset (dset vision_result (u ''validated'') (PBool False))
                    (u ''warning'') (PStr warning_not_found)))))"

section \<open>app/ai/text\_processor.py\<close>

record text_processing_result =
  tp_answer :: pystr
  tp_sources :: "pystr list"
  tp_confidence :: pystr

definition prefix_info :: pystr where
  "prefix_info =
     u ''Informace o l'' @ [233] @ u ''ku: ''"

definition prefix_active :: pystr where
  "prefix_active =
     [218, 269] @ u ''inn'' @ [225] @ u '' l'' @ [225] @ u ''tka l'' @ [233]
     @ u ''ku: ''"

definition prefix_dosage :: pystr where
  "prefix_dosage =
     u ''D'' @ [225] @ u ''vkov'' @ [225] @ u ''n'' @ [237] @ u '' l'' @ [233]
     @ u ''ku: ''"

definition prefix_interactions :: pystr where
  "prefix_interactions =
     u ''L'' @ [233] @ u ''kov'' @ [233] @ u '' interakce: ''"

definition preprocess_query :: "env \<Rightarrow> pystr \<Rightarrow> pystr" where
  "preprocess_query E query =
     (let processed = py_strip query;
          query_lower = str_lower E processed
      in
      if contains query_lower (u ''co je'')
         \<or> contains query_lower (u ''jak'' @ [253] @ u '' je'')
         \<or> contains query_lower (u ''co to je'')
      then prefix_info @ processed
      else if contains query_lower ([250, 269] @ u ''inn'' @ [225] @ u '' l'' @ [225] @ u ''tka'')
         \<or> contains query_lower (u ''obsahuje'')
      then prefix_active @ processed
      else if contains query_lower (u ''d'' @ [225] @ u ''vkov'' @ [225] @ u ''n'' @ [237])
         \<or> contains query_lower (u ''kolik'')
         \<or> contains query_lower (u ''jak '' @ [269] @ u ''asto'')
      then prefix_dosage @ processed
      else if contains query_lower (u ''interakce'')
         \<or> contains query_lower (u ''u'' @ [382, 237] @ u ''vat s'')
      then prefix_interactions @ processed
      else processed)"

definition get_source_documents :: "env \<Rightarrow> pystr \<Rightarrow> pydict list" where
  "get_source_documents E query = map row_metadata (search_medications E query 5 similarity_threshold)"

text \<open>\<open>_assess_response_confidence\<close>.\<close>

definition positive_indicators :: "pystr list" where
  "positive_indicators =
     [[250, 269] @ u ''inn'' @ [225] @ u '' l'' @ [225] @ u ''tka'',
      u ''indikace'',
      u ''d'' @ [225] @ u ''vkov'' @ [225] @ u ''n'' @ [237],
      u ''s'' @ [237] @ u ''la'',
      u ''tablety'',
      u ''mg'',
      u ''ml'']"

text \<open>\<open>sum(1 for indicator in positive_indicators if indicator in response_lower)\<close>.\<close>

fun count_indicators :: "pystr \<Rightarrow> pystr list \<Rightarrow> nat" where
  "count_indicators response_lower [] = 0"
| "count_indicators response_lower (indicator # indicators) =
     (if contains response_lower indicator then 1 else 0) + count_indicators response_lower indicators"

definition assess_response_confidence :: "env \<Rightarrow> pystr \<Rightarrow> pydict list \<Rightarrow> pystr" where
  "assess_response_confidence E response sources =
     (if length (py_strip response) < 50 then u ''low''
      else if sources = [] then u ''low''
      else if length sources < 2 then u ''medium''
      else
        (let response_lower = str_lower E response;
             found_indicators = count_indicators response_lower positive_indicators
         in
         if found_indicators \<ge> 4 then u ''high''
         else if found_indicators \<ge> 2 then u ''medium''
         else u ''low''))"

text \<open>\<open>settings.medical_disclaimer\<close>, the default of app/config.py.\<close>

definition medical_disclaimer :: pystr where
  "medical_disclaimer =
     [10] @ u ''    UPOZORN'' @ [282] @ u ''N'' @ [205] @ u '': Tyto informace slou''
     @ [382, 237] @ u '' pouze pro informativn'' @ [237] @ u '' '' @ [250, 269]
     @ u ''ely a nenahrazuj'' @ [237] @ u '' '' @ [10] @ u ''    odbornou l'' @ [233]
     @ u ''ka'' @ [345] @ u ''skou radu, diagn'' @ [243] @ u ''zu nebo l'' @ [233, 269]
     @ u ''bu. V'' @ [382] @ u ''dy se pora'' @ [271] @ u ''te s kvalifikovan'' @ [253]
     @ u ''m '' @ [10] @ u ''    zdravotnick'' @ [253] @ u ''m odborn'' @ [237]
     @ u ''kem p'' @ [345] @ u ''ed u'' @ [382] @ u ''it'' @ [237] @ u ''m jak'' @ [233]
     @ u ''hokoliv l'' @ [233] @ u ''ku.'' @ [10] @ u ''    ''"

text \<open>\<open>_add_medical_disclaimers\<close>: the answer, a rule, the disclaimer.\<close>

definition add_medical_disclaimers :: "pystr \<Rightarrow> pystr" where
  "add_medical_disclaimers answer =
     py_strip answer @ [10, 10] @ u ''---'' @ [10] @ py_strip medical_disclaimer"

definition apology_head :: pystr where
  "apology_head =
     u ''Omlouv'' @ [225] @ u ''m se, nastala chyba p'' @ [345] @ u ''i zpracov''
     @ [225] @ u ''n'' @ [237] @ u '' dotazu: ''"

definition apology_tail :: pystr where
  "apology_tail =
     [10, 10] @ u ''Pros'' @ [237] @ u ''m zkuste p'' @ [345]
     @ u ''eformulovat dotaz nebo kontaktujte l'' @ [233] @ u ''k'' @ [225] @ u ''rnu.''"

definition unknown_source :: pystr where
  "unknown_source =
     u ''Nezn'' @ [225] @ u ''m'' @ [253] @ u '' zdroj''"

definition apology_result :: "py_exn \<Rightarrow> text_processing_result" where
  "apology_result e =
     \<lparr> tp_answer = apology_head @ str_exn e @ apology_tail,
       tp_sources = [],
       tp_confidence = u ''low'' \<rparr>"

text \<open>
  \<open>TextProcessingResult(sources=[...])\<close> takes a list of strings; any other element
  raises \<open>ValidationError\<close>, inside the \<open>try\<close> block.
\<close>

fun str_list :: "pyval list \<Rightarrow> pystr list option" where
  "str_list [] = Some []"
| "str_list (PStr s # vs) = map_option ((#) s) (str_list vs)"
| "str_list (v # vs) = None"

definition process_text_query :: "env \<Rightarrow> pystr \<Rightarrow> text_processing_result" where
  "process_text_query E query =
     (let processed_query = preprocess_query E query in
      case qa_run E processed_query of
        Inl e \<Rightarrow> apology_result e
      | Inr result \<Rightarrow>
          (let sources = get_source_documents E processed_query;
               confidence = assess_response_confidence E result sources;
               enhanced_answer = add_medical_disclaimers result;
               names = map (\<lambda>source. dget_or source (u ''name'') (PStr unknown_source)) sources
           in
           case str_list names of
             None \<Rightarrow> apology_result (Exn ValidationError (pydantic_message E names))
           | Some source_names \<Rightarrow>
               \<lparr> tp_answer = enhanced_answer,
                 tp_sources = source_names,
                 tp_confidence = confidence \<rparr>))"

definition process_medication_comparison :: "env \<Rightarrow> pystr \<Rightarrow> pystr \<Rightarrow> text_processing_result" where
  "process_medication_comparison E medication1 medication2 =
     process_text_query E
       (u ''Porovn'' @ [225] @ u ''n'' @ [237] @ u '' l'' @ [233] @ u ''k'' @ [367] @ u '' ''
        @ medication1 @ u '' a '' @ medication2 @ u '' - '' @ [250, 269] @ u ''inn'' @ [233]
        @ u '' l'' @ [225] @ u ''tky, indikace, rozd'' @ [237] @ u ''ly'')"

definition warning_query_head :: pystr where
  "warning_query_head =
     [10] @ u ''        UPOZORN'' @ [282] @ u ''N'' @ [205] @ u '': N'' @ [225]
     @ u ''sleduj'' @ [237] @ u ''c'' @ [237] @ u '' informace NEJSOU l'' @ [233]
     @ u ''ka'' @ [345] @ u ''sk'' @ [225] @ u '' diagn'' @ [243] @ u ''za ani doporu''
     @ [269] @ u ''en'' @ [237] @ u '' l'' @ [233, 269] @ u ''by.'' @ [10]
     @ u ''        '' @ [10] @ u ''        Hled'' @ [225] @ u ''m l'' @ [233]
     @ u ''ky kter'' @ [233] @ u '' se OBECN'' @ [282] @ u '' pou'' @ [382, 237]
     @ u ''vaj'' @ [237] @ u '' p'' @ [345] @ u ''i symptomech: ''"

definition warning_query_tail :: pystr where
  "warning_query_tail =
     [10] @ u ''        '' @ [10] @ u ''        D'' @ [366] @ u ''LE'' @ [381]
     @ u ''IT'' @ [201] @ u '': V'' @ [382] @ u ''dy se pora'' @ [271] @ u ''te s l''
     @ [233] @ u ''ka'' @ [345] @ u ''em p'' @ [345] @ u ''ed u'' @ [382] @ u ''it''
     @ [237] @ u ''m jak'' @ [233] @ u ''hokoliv l'' @ [233] @ u ''ku.'' @ [10]
     @ u ''        ''"

definition warning_banner :: pystr where
  "warning_banner =
     [9888, 65039] @ u '' **D'' @ [366] @ u ''LE'' @ [381] @ u ''IT'' @ [201]
     @ u '' VAROV'' @ [193] @ u ''N'' @ [205] @ u ''**: Tyto informace nejsou l''
     @ [233] @ u ''ka'' @ [345] @ u ''skou radou!'' @ [10, 10]"

definition search_by_symptoms :: "env \<Rightarrow> pystr \<Rightarrow> text_processing_result" where
  "search_by_symptoms E symptoms =
     (let warning_query = warning_query_head @ symptoms @ warning_query_tail;
          result = process_text_query E warning_query
      in result \<lparr> tp_answer := warning_banner @ tp_answer result, tp_confidence := u ''low'' \<rparr>)"

text \<open>
  The heuristic in the words of the specification: the number of distinct keywords
  that occur in the lower-cased answer, the tier that number decides, and the order
  low, medium, high.
\<close>

definition distinct_hits :: "env \<Rightarrow> pystr \<Rightarrow> nat" where
  "distinct_hits E response =
     card {k \<in> set positive_indicators. contains (str_lower E response) k}"

definition keyword_tier :: "nat \<Rightarrow> pystr" where
  "keyword_tier hits = (if hits \<ge> 4 then u ''high'' else if hits \<ge> 2 then u ''medium'' else u ''low'')"

definition confidence_rank :: "pystr \<Rightarrow> nat" where
  "confidence_rank c = (if c = u ''high'' then 2 else if c = u ''medium'' then 1 else 0)"

text \<open>Two answers of 60 and 61 characters, with two and with four of the keywords.\<close>

definition answer_two_hits :: pystr where
  "answer_two_hits = u ''Paralen 500 mg, tablety. Dalsi udaje nejsou v databazi SUKL.''"

definition answer_four_hits :: pystr where
  "answer_four_hits = u ''Paralen 500 mg, tablety; indikace: bolest; 10 ml sirupu. SUKL''"

section \<open>app/ai/vision\_processor.py\<close>

definition warning_no_name :: pystr where
  "warning_no_name =
     u ''Nepoda'' @ [345] @ u ''ilo se rozpoznat n'' @ [225] @ u ''zev l'' @ [233]
     @ u ''ku''"

definition warning_very_low :: pystr where
  "warning_very_low =
     u ''Velmi n'' @ [237] @ u ''zk'' @ [225] @ u '' spolehlivost rozpozn'' @ [225]
     @ u ''n'' @ [237] @ u ''. Zkuste obr'' @ [225] @ u ''zek s lep'' @ [353, 237]
     @ u ''m osv'' @ [283] @ u ''tlen'' @ [237] @ u ''m nebo z jin'' @ [233] @ u ''ho ''
     @ [250] @ u ''hlu.''"

definition warning_low :: pystr where
  "warning_low =
     u ''N'' @ [237] @ u ''zk'' @ [225] @ u '' spolehlivost rozpozn'' @ [225] @ u ''n''
     @ [237] @ u ''. Doporu'' @ [269] @ u ''ujeme ov'' @ [283, 345]
     @ u ''it informace.''"

definition warning_medium :: pystr where
  "warning_medium =
     u ''St'' @ [345] @ u ''edn'' @ [237] @ u '' spolehlivost rozpozn'' @ [225]
     @ u ''n'' @ [237] @ u ''. Zkontrolujte spr'' @ [225] @ u ''vnost '' @ [250]
     @ u ''daj'' @ [367] @ u ''.''"

definition warning_not_verified :: pystr where
  "warning_not_verified =
     u ''Nepoda'' @ [345] @ u ''ilo se ov'' @ [283, 345] @ u ''it informace v datab''
     @ [225] @ u ''zi S'' @ [218] @ u ''KL''"

text \<open>
  \<open>round(v, 2)\<close> on a score: a float is rounded as above; on an \<open>int\<close> (a score that met
  no penalty) the function returns the \<open>int\<close>, also for a \<open>bool\<close>.
\<close>

fun py_round2 :: "pyval \<Rightarrow> pyval" where
  "py_round2 (PFloat r) = PFloat (round2 r)"
| "py_round2 (PBool b) = PInt (if b then 1 else 0)"
| "py_round2 v = v"

text \<open>\<open>not v or v == "neni viditelne"\<close>: the field is missing or the placeholder.\<close>

definition missing :: "pyval \<Rightarrow> bool" where
  "missing v \<longleftrightarrow> \<not> truthy v \<or> v = PStr placeholder"

text \<open>
  \<open>v - y\<close> for a float \<open>y\<close>. A float is subtracted from and the difference rounded; an
  \<open>int\<close> is first converted to a float, which raises \<open>OverflowError\<close> when it does not
  round to a finite one; any other value raises \<open>TypeError\<close>.
\<close>

definition int_to_float :: "int \<Rightarrow> py_exn + real" where
  "int_to_float i =
     (if \<bar>of_int i :: real\<bar> \<ge> 2 ^ 1024 - 2 ^ 970
      then Inl (Exn OverflowError (u ''int too large to convert to float''))
      else Inr (float64 (of_int i)))"

definition float_sub :: "pyval \<Rightarrow> real \<Rightarrow> py_exn + real" where
  "float_sub v y =
     (case v of
        PFloat r \<Rightarrow> Inr (float64 (r - y))
      | PInt i \<Rightarrow>
          (case int_to_float i of Inl e \<Rightarrow> Inl e | Inr r \<Rightarrow> Inr (float64 (r - y)))
      | PBool b \<Rightarrow> Inr (float64 ((if b then 1 else 0) - y))
      | _ \<Rightarrow>
          Inl (Exn TypeError
            (u ''unsupported operand type(s) for -: '' @ [39] @ type_name v @ [39] @ u '' and ''
             @ [39] @ u ''float'' @ [39])))"

text \<open>\<open>max(0.0, confidence - y)\<close>: the difference when it is above \<open>0.0\<close>, else \<open>0.0\<close>.\<close>

definition penalise :: "pyval \<Rightarrow> real \<Rightarrow> py_exn + pyval" where
  "penalise confidence y =
     (case float_sub confidence y of
        Inl e \<Rightarrow> Inl e
      | Inr d \<Rightarrow> Inr (PFloat (if d > 0 then d else 0)))"

text \<open>\<open>confidence < y\<close> for a float \<open>y\<close>: the comparison of the values, for a number.\<close>

definition less_float :: "pyval \<Rightarrow> real \<Rightarrow> py_exn + bool" where
  "less_float v y =
     (case num_of v of
        None \<Rightarrow>
          Inl (Exn TypeError
            ([39] @ u ''<'' @ [39] @ u '' not supported between instances of '' @ [39]
             @ type_name v @ [39] @ u '' and '' @ [39] @ u ''float'' @ [39]))
      | Some c \<Rightarrow> Inr (c < y))"

text \<open>
  \<open>_validate_recognition_quality\<close>. The score is read with
  \<open>result_data.get("confidence_score", 0.0)\<close>; the two penalties, the three
  comparisons of the warning bands and the rounding follow in the order of the source.
\<close>

definition validate_recognition_quality :: "pydict \<Rightarrow> py_exn + pydict" where
  "validate_recognition_quality result_data =
     (let confidence = dget_or result_data (u ''confidence_score'') (PFloat 0);
          name = dget_or result_data (u ''name'') (PStr []);
          active_ingredient = dget_or result_data (u ''active_ingredient'') (PStr [])
      in
      case (if missing name then penalise confidence (float64 (3 / 10)) else Inr confidence) of
        Inl e \<Rightarrow> Inl e
      | Inr confidence1 \<Rightarrow>
          (let data1 =
                 (if missing name then dset result_data (u ''warning'') (PStr warning_no_name)
                  else result_data)
           in
           case (if missing active_ingredient then penalise confidence1 (float64 (2 / 10))
                 else Inr confidence1) of
             Inl e \<Rightarrow> Inl e
           | Inr confidence2 \<Rightarrow>
               (case less_float confidence2 (float64 (4 / 10)) of
                  Inl e \<Rightarrow> Inl e
                | Inr very_low \<Rightarrow>
                    (let c2 = the (num_of confidence2);
                         data2 =
                           (if very_low then dset data1 (u ''warning'') (PStr warning_very_low)
                            else if c2 < float64 (6 / 10)
                            then dset data1 (u ''warning'') (PStr warning_low)
                            else if c2 < float64 (8 / 10)
                            then dset data1 (u ''warning'') (PStr warning_medium)
                            else data1)
                     in Inr (dset data2 (u ''confidence_score'') (py_round2 confidence2))))))"

text \<open>\<open>vision_result.dict()\<close> of a validated result, in the order of the fields.\<close>

definition vr_dict :: "vision_result \<Rightarrow> pydict" where
  "vr_dict r =
     [(u ''name'', PStr (vr_name r)),
      (u ''active_ingredient'', PStr (vr_active_ingredient r)),
      (u ''strength'', PStr (vr_strength r)),
      (u ''form'', PStr (vr_form r)),
      (u ''manufacturer'', PStr (vr_manufacturer r)),
      (u ''registration_number'', PStr (vr_registration_number r)),
      (u ''confidence_score'', PFloat (vr_confidence_score r)),
      (u ''warning'', opt_val (vr_warning r)),
      (u ''validated'', (case vr_validated r of None \<Rightarrow> PNone | Some b \<Rightarrow> PBool b)),
      (u ''sukl_matches'',
         (case vr_sukl_matches r of None \<Rightarrow> PNone | Some ms \<Rightarrow> PList (map PDict ms)))]"

text \<open>
  The argument of \<open>validate_against_sukl\<close> is an object: a plain dictionary, or a
  \<open>VisionResult\<close> instance, given by its attribute dictionary (assignment to an
  attribute does not validate, so after \<open>setattr\<close> the attributes are dynamic values).
  A dictionary has no attribute \<open>name\<close> and no attribute \<open>dict\<close>; \<open>hasattr\<close> on an
  instance is read as: the key is one of its fields.
\<close>

datatype pyobj = DictObj pydict | ModelObj pydict

definition getattr :: "pyobj \<Rightarrow> pystr \<Rightarrow> py_exn + pyval" where
  "getattr obj attr =
     (case obj of
        DictObj d \<Rightarrow> Inl (no_attribute (u ''dict'') attr)
      | ModelObj attrs \<Rightarrow>
          (case dget attrs attr of
             None \<Rightarrow> Inl (no_attribute (u ''VisionResult'') attr)
           | Some v \<Rightarrow> Inr v))"

text \<open>
  \<open>for key, value in validation_result.items(): if hasattr(vision_result, key):
  setattr(vision_result, key, value)\<close>.
\<close>

fun set_attrs :: "pydict \<Rightarrow> pydict \<Rightarrow> pydict" where
  "set_attrs [] attrs = attrs"
| "set_attrs ((key, val) # validation_result) attrs =
     set_attrs validation_result (if dhas attrs key then dset attrs key val else attrs)"

text \<open>
  \<open>validate_against_sukl\<close>. The test of \<open>vision_result.name\<close> stands before the \<open>try\<close>
  block, so its \<open>AttributeError\<close> leaves the function; an exception inside the block
  only sets the warning.
\<close>

definition validate_against_sukl :: "env \<Rightarrow> pyobj \<Rightarrow> py_exn + pyobj" where
  "validate_against_sukl E vision_result =
     (case getattr vision_result (u ''name'') of
        Inl e \<Rightarrow> Inl e
      | Inr name \<Rightarrow>
          if missing name then Inr vision_result
          else
            (case vision_result of
               DictObj d \<Rightarrow> Inl (no_attribute (u ''dict'') (u ''warning''))
             | ModelObj attrs \<Rightarrow>
                 (case validate_medication_info E attrs of
                    Inl e \<Rightarrow> Inr (ModelObj (dset attrs (u ''warning'') (PStr warning_not_verified)))
                  | Inr validation_result \<Rightarrow> Inr (ModelObj (set_attrs validation_result attrs)))))"

text \<open>
  The quality adjustment in the words of the specification: 0.3 off when the name is
  missing or the placeholder, a further 0.2 off when the active ingredient is, the
  result not below 0 and rounded to two decimal places. The subtractions are those of
  floats.
\<close>

definition adjusted_score :: "pydict \<Rightarrow> real \<Rightarrow> real" where
  "adjusted_score result_data c =
     (let c1 =
            (if missing (dget_or result_data (u ''name'') (PStr []))
             then float64 (c - float64 (3 / 10)) else c);
          c2 =
            (if missing (dget_or result_data (u ''active_ingredient'') (PStr []))
             then float64 (c1 - float64 (2 / 10)) else c1)
      in round2 (max 0 c2))"

text \<open>The fields the validation step may set whatever they held.\<close>

definition validation_fields :: "pystr set" where
  "validation_fields = {u ''validated'', u ''sukl_matches'', u ''warning''}"

section \<open>app/workflows/medication\_workflow.py\<close>

text \<open>\<open>MedicationState\<close>, with every key present, as app/main.py builds it.\<close>

record medication_state =
  ms_query :: pystr
  ms_query_type :: pystr
  ms_image_data :: "pystr option"
  ms_extracted_text :: "pystr option"
  ms_medication_info :: "pydict option"
  ms_safety_warnings :: "pystr list"
  ms_disclaimer :: pystr
  ms_confidence_score :: real
  ms_sources :: "pyval list"
  ms_error :: "pystr option"

definition error_no_image :: pystr where
  "error_no_image =
     u ''Chyb'' @ [237] @ u '' obr'' @ [225] @ u ''zek pro zpracov'' @ [225] @ u ''n''
     @ [237]"

definition error_vision_head :: pystr where
  "error_vision_head =
     u ''Chyba p'' @ [345] @ u ''i rozpozn'' @ [225] @ u ''n'' @ [237] @ u '' obr''
     @ [225] @ u ''zku: ''"

definition error_no_query :: pystr where
  "error_no_query =
     u ''Chyb'' @ [237] @ u '' dotaz pro vyhled'' @ [225] @ u ''n'' @ [237]
     @ u '' v datab'' @ [225] @ u ''zi''"

definition error_search_head :: pystr where
  "error_search_head =
     u ''Chyba p'' @ [345] @ u ''i vyhled'' @ [225] @ u ''v'' @ [225] @ u ''n'' @ [237]
     @ u '' v datab'' @ [225] @ u ''zi: ''"

definition default_source :: pystr where
  "default_source =
     u ''S'' @ [218] @ u ''KL datab'' @ [225] @ u ''ze''"

definition warning_no_results :: pystr where
  "warning_no_results =
     u ''Informace o tomto l'' @ [233] @ u ''ku nebyly nalezeny v datab'' @ [225]
     @ u ''zi S'' @ [218] @ u ''KL''"

definition extracted_text_head :: pystr where
  "extracted_text_head =
     u ''N'' @ [225] @ u ''zev: ''"

subsection \<open>\<open>extract_medication_from_image\<close>\<close>

definition extract_medication_from_image :: "env \<Rightarrow> medication_state \<Rightarrow> medication_state" where
  "extract_medication_from_image E state =
     (case ms_image_data state of
        None \<Rightarrow> state \<lparr> ms_error := Some error_no_image \<rparr>
      | Some image_data \<Rightarrow>
          if image_data = [] then state \<lparr> ms_error := Some error_no_image \<rparr>
          else
            (case vision_init E of
               Some e \<Rightarrow> state \<lparr> ms_error := Some (error_vision_head @ str_exn e) \<rparr>
             | None \<Rightarrow>
                 (let vision_result = process_image E image_data;
                      state1 = state
                        \<lparr> ms_medication_info := Some (vr_dict vision_result),
                          ms_confidence_score := vr_confidence_score vision_result,
                          ms_extracted_text := Some (extracted_text_head @ vr_name vision_result) \<rparr>
                  in
                  case vr_warning vision_result of
                    None \<Rightarrow> state1
                  | Some warning \<Rightarrow>
                      if warning = [] then state1
                      else state1
                        \<lparr> ms_safety_warnings := ms_safety_warnings state1 @ [warning] \<rparr>)))"

subsection \<open>\<open>search_sukl_database\<close>\<close>

text \<open>The handler of the stage: \<open>state["error"] = f"Chyba ...: {str(e)}"\<close>.\<close>

definition search_failed :: "medication_state \<Rightarrow> py_exn \<Rightarrow> medication_state" where
  "search_failed state e = state \<lparr> ms_error := Some (error_search_head @ str_exn e) \<rparr>"

text \<open>
  The query of an image request: \<open>state.get("extracted_text", "")\<close>, replaced by the
  name when \<open>state.get("medication_info", {}).get("name")\<close> is true. The key
  \<open>medication_info\<close> is present, so the default does not apply and \<open>None.get\<close> raises.
\<close>

definition image_search_query :: "medication_state \<Rightarrow> py_exn + pyval" where
  "image_search_query state =
     (case ms_medication_info state of
        None \<Rightarrow> Inl (no_attribute (u ''NoneType'') (u ''get''))
      | Some info \<Rightarrow>
          if truthy (dget_or info (u ''name'') PNone) then Inr (dget_or info (u ''name'') PNone)
          else Inr (opt_val (ms_extracted_text state)))"

text \<open>
  The merge loop: \<open>if value and (key not in info or info[key] == "neni viditelne")\<close>.
\<close>

fun merge_metadata :: "pydict \<Rightarrow> pydict \<Rightarrow> pydict" where
  "merge_metadata [] info = info"
| "merge_metadata ((key, val) # best_metadata) info =
     merge_metadata best_metadata
       (if truthy val \<and> (\<not> dhas info key \<or> dget info key = Some (PStr placeholder))
        then dset info key val else info)"

definition text_search :: "env \<Rightarrow> medication_state \<Rightarrow> pystr \<Rightarrow> medication_state" where
  "text_search E state search_query =
     (case text_init E of
        Some e \<Rightarrow> search_failed state e
      | None \<Rightarrow>
          (let result = process_text_query E search_query in
           state
             \<lparr> ms_medication_info :=
                 Some [(u ''answer'', PStr (tp_answer result)),
                       (u ''sources'', PList (map PStr (tp_sources result))),
                       (u ''confidence'', PStr (tp_confidence result))],
               ms_sources := map PStr (tp_sources result),
               ms_confidence_score :=
                 (if tp_confidence result = u ''high'' then float64 (9 / 10)
                  else if tp_confidence result = u ''medium'' then float64 (7 / 10)
                  else float64 (4 / 10)) \<rparr>))"

text \<open>
  The branch for image requests. The state is updated in place, so the merged
  information and the sources stay when the validation that follows raises.
\<close>

definition image_search :: "env \<Rightarrow> medication_state \<Rightarrow> pystr \<Rightarrow> medication_state" where
  "image_search E state search_query =
     (case search_medications E search_query 5 similarity_threshold of
        [] \<Rightarrow> state \<lparr> ms_safety_warnings := ms_safety_warnings state @ [warning_no_results] \<rparr>
      | best_match # others \<Rightarrow>
          (let best_metadata = row_metadata best_match;
               info =
                 (case ms_medication_info state of
                    None \<Rightarrow> best_metadata
                  | Some old \<Rightarrow> if old \<noteq> [] then merge_metadata best_metadata old else best_metadata);
               state1 = state
                 \<lparr> ms_medication_info := Some info,
                   ms_sources :=
                     map (\<lambda>r. dget_or (row_metadata r) (u ''name'') (PStr default_source))
                       (take 3 (best_match # others)) \<rparr>
           in
           if info \<noteq> [] then
             (case vision_init E of
                Some e \<Rightarrow> search_failed state1 e
              | None \<Rightarrow>
                  (case validate_against_sukl E (DictObj info) of
                     Inl e \<Rightarrow> search_failed state1 e
                   | Inr validated_info \<Rightarrow>
                       state1
                         \<lparr> ms_medication_info :=
                             Some (case validated_info of ModelObj attrs \<Rightarrow> attrs | DictObj d \<Rightarrow> d) \<rparr>))
           else state1))"

definition search_sukl_database :: "env \<Rightarrow> medication_state \<Rightarrow> medication_state" where
  "search_sukl_database E state =
     (case store_init E of
        Some e \<Rightarrow> search_failed state e
      | None \<Rightarrow>
          (case (if ms_query_type state = u ''image'' then image_search_query state
                 else Inr (PStr (ms_query state))) of
             Inl e \<Rightarrow> search_failed state e
           | Inr q \<Rightarrow>
               (case q of
                  PStr search_query \<Rightarrow>
                    if py_strip search_query = [] then state \<lparr> ms_error := Some error_no_query \<rparr>
                    else if ms_query_type state = u ''text'' then text_search E state search_query
                    else image_search E state search_query
                | _ \<Rightarrow> search_failed state (no_attribute (type_name q) (u ''strip'')))))"

subsection \<open>\<open>validate_and_enhance_info\<close>\<close>

text \<open>
  The handler of this stage returns the state as it is at the exception. The
  dictionary \<open>medication_info\<close> is the one the state holds, so the normalised name is
  in the state as soon as it is assigned; what follows (the comparison of strength and
  form, which only logs) changes nothing, whether it raises or not.
\<close>

definition validate_and_enhance_info :: "env \<Rightarrow> medication_state \<Rightarrow> medication_state" where
  "validate_and_enhance_info E state =
     (case ms_medication_info state of
        None \<Rightarrow> state
      | Some medication_info \<Rightarrow>
          (let name = dget_or medication_info (u ''name'') PNone;
               missing_fields =
                 (\<not> truthy name \<or> \<not> truthy (dget_or medication_info (u ''active_ingredient'') PNone));
               state1 =
                 (if missing_fields
                  then state \<lparr> ms_confidence_score :=
                         max 0 (float64 (ms_confidence_score state - float64 (2 / 10))) \<rparr>
                  else state)
           in
           if truthy name then
             (case name of
                PStr n \<Rightarrow>
                  state1
                    \<lparr> ms_medication_info :=
                        Some (dset medication_info (u ''name'') (PStr (py_strip (str_upper E n)))) \<rparr>
              | _ \<Rightarrow> state1)
           else state1))"

subsection \<open>\<open>add_safety_disclaimers\<close>\<close>

definition warning_contraindication :: pystr where
  "warning_contraindication =
     [9888, 65039] @ u '' Zkontrolujte kontraindikace p'' @ [345] @ u ''ed u'' @ [382]
     @ u ''it'' @ [237] @ u ''m''"

definition warning_interactions :: pystr where
  "warning_interactions =
     [9888, 65039] @ u '' Informujte se o mo'' @ [382] @ u ''n'' @ [253]
     @ u ''ch interakc'' @ [237] @ u ''ch s jin'' @ [253] @ u ''mi l'' @ [233]
     @ u ''ky''"

definition warning_prescription :: pystr where
  "warning_prescription =
     [9888, 65039] @ u '' Tento l'' @ [233] @ u ''k vy'' @ [382] @ u ''aduje l'' @ [233]
     @ u ''ka'' @ [345] @ u ''sk'' @ [253] @ u '' p'' @ [345] @ u ''edpis''"

definition warning_drug_class :: pystr where
  "warning_drug_class =
     [9888, 65039] @ u '' Tento typ l'' @ [233] @ u ''ku vy'' @ [382] @ u ''aduje zvl''
     @ [225, 353] @ u ''tn'' @ [237] @ u '' pozornost p'' @ [345] @ u ''i u''
     @ [382, 237] @ u ''v'' @ [225] @ u ''n'' @ [237]"

definition kw_predpis :: pystr where
  "kw_predpis =
     u ''p'' @ [345] @ u ''edpis''"

definition disclaimer_addendum :: pystr where
  "disclaimer_addendum =
     [10] @ u ''        '' @ [10] @ u ''        Informace poch'' @ [225] @ u ''zej''
     @ [237] @ u '' z ofici'' @ [225] @ u ''ln'' @ [237] @ u '' datab'' @ [225]
     @ u ''ze S'' @ [218] @ u ''KL, ale mohou se zm'' @ [283] @ u ''nit. '' @ [10]
     @ u ''        Pro nejaktu'' @ [225] @ u ''ln'' @ [283] @ u ''j'' @ [353, 237]
     @ u '' informace kontaktujte l'' @ [233] @ u ''k'' @ [225] @ u ''rnu nebo l''
     @ [233] @ u ''ka'' @ [345] @ u ''e.'' @ [10] @ u ''        ''"

definition fallback_disclaimer :: pystr where
  "fallback_disclaimer =
     [10] @ u ''        UPOZORN'' @ [282] @ u ''N'' @ [205]
     @ u '': Tyto informace slou'' @ [382, 237] @ u '' pouze pro informativn'' @ [237]
     @ u '' '' @ [250, 269] @ u ''ely a nenahrazuj'' @ [237] @ u '' '' @ [10]
     @ u ''        odbornou l'' @ [233] @ u ''ka'' @ [345] @ u ''skou radu. V'' @ [382]
     @ u ''dy se pora'' @ [271] @ u ''te s l'' @ [233] @ u ''ka'' @ [345] @ u ''em p''
     @ [345] @ u ''ed u'' @ [382] @ u ''it'' @ [237] @ u ''m l'' @ [233] @ u ''k''
     @ [367] @ u ''.'' @ [10] @ u ''        ''"

text \<open>
  The warnings of the \<open>try\<close> block, for an information dictionary whose prescription
  entry and name are strings (\<open>.lower()\<close> raises on every other value).
\<close>

definition safety_checks :: "env \<Rightarrow> pydict \<Rightarrow> pystr \<Rightarrow> pystr \<Rightarrow> pystr list" where
  "safety_checks E info prescription_req name =
     (let w1 = (if truthy (dget_or info (u ''contraindication'') PNone)
                then [warning_contraindication] else []);
          w2 = (if truthy (dget_or info (u ''interactions'') PNone)
                then w1 @ [warning_interactions] else w1);
          w3 = (if contains (str_lower E prescription_req) kw_predpis
                then w2 @ [warning_prescription] else w2);
          med_name = str_lower E name;
          w4 = (if contains med_name (u ''antibio'') \<or> contains med_name (u ''kortiko'')
                   \<or> contains med_name (u ''psycho'')
                then w3 @ [warning_drug_class] else w3)
      in w4)"

definition add_safety_disclaimers :: "env \<Rightarrow> medication_state \<Rightarrow> medication_state" where
  "add_safety_disclaimers E state =
     (case ms_medication_info state of
        None \<Rightarrow> state \<lparr> ms_disclaimer := fallback_disclaimer \<rparr>
      | Some info \<Rightarrow>
          (case dget_or info (u ''prescription_required'') (PStr []) of
             PStr prescription_req \<Rightarrow>
               (case dget_or info (u ''name'') (PStr []) of
                  PStr name \<Rightarrow>
                    state
                      \<lparr> ms_safety_warnings := safety_checks E info prescription_req name,
                        ms_disclaimer := py_strip (medical_disclaimer @ disclaimer_addendum) \<rparr>
                | _ \<Rightarrow> state \<lparr> ms_disclaimer := fallback_disclaimer \<rparr>)
           | _ \<Rightarrow> state \<lparr> ms_disclaimer := fallback_disclaimer \<rparr>))"

subsection \<open>The graph\<close>

text \<open>
  \<open>create_medication_workflow\<close> adds five nodes: the four stages and \<open>route_query\<close>, the
  entry point, whose function is the routing function itself.
\<close>

datatype node = RouteQuery | ExtractImage | SearchDatabase | ValidateInfo | AddDisclaimers

text \<open>\<open>route_query\<close> returns the name of a branch.\<close>

definition route_query :: "medication_state \<Rightarrow> pystr" where
  "route_query state =
     (if ms_query_type state = u ''image'' then u ''extract_image'' else u ''search_database'')"

text \<open>What the function of a node returns: a stage the state, \<open>route_query\<close> a string.\<close>

datatype node_output = StateOutput medication_state | StrOutput pystr

fun node_action :: "env \<Rightarrow> node \<Rightarrow> medication_state \<Rightarrow> node_output" where
  "node_action E RouteQuery state = StrOutput (route_query state)"
| "node_action E ExtractImage state = StateOutput (extract_medication_from_image E state)"
| "node_action E SearchDatabase state = StateOutput (search_sukl_database E state)"
| "node_action E ValidateInfo state = StateOutput (validate_and_enhance_info E state)"
| "node_action E AddDisclaimers state = StateOutput (add_safety_disclaimers E state)"

text \<open>
  The graph library is not part of the repository. It takes what a node returns as an
  update of the state: a dictionary, whose entries overwrite the keys of the state. A
  stage returns the whole state, so the state after a stage is the one it returned. A
  return value that is not a dictionary is refused with \<open>InvalidUpdateError\<close>, which
  leaves \<open>invoke\<close>.
\<close>

definition apply_update :: "env \<Rightarrow> node_output \<Rightarrow> py_exn + medication_state" where
  "apply_update E out =
     (case out of
        StateOutput state \<Rightarrow> Inr state
      | StrOutput s \<Rightarrow> Inl (Exn InvalidUpdateError (update_message E s)))"

text \<open>
  The edges; \<open>None\<close> is \<open>END\<close>. From \<open>route_query\<close> the edge is conditional: the routing
  function is called on the state and its result looked up in the path map, of which
  both its results are keys. The edges extract\_image to search\_database,
  search\_database to validate\_info, validate\_info to add\_disclaimers and
  add\_disclaimers to \<open>END\<close> are unconditional.
\<close>

definition path_map :: "(pystr \<times> node) list" where
  "path_map = [(u ''extract_image'', ExtractImage), (u ''search_database'', SearchDatabase)]"

fun next_node :: "node \<Rightarrow> medication_state \<Rightarrow> node option" where
  "next_node RouteQuery state = map_of path_map (route_query state)"
| "next_node ExtractImage state = Some SearchDatabase"
| "next_node SearchDatabase state = Some ValidateInfo"
| "next_node ValidateInfo state = Some AddDisclaimers"
| "next_node AddDisclaimers state = None"

fun node_rank :: "node \<Rightarrow> nat" where
  "node_rank RouteQuery = 0"
| "node_rank ExtractImage = 1"
| "node_rank SearchDatabase = 2"
| "node_rank ValidateInfo = 3"
| "node_rank AddDisclaimers = 4"

lemma next_node_rank: "next_node n s = Some m \<Longrightarrow> node_rank n < node_rank m"
  by (cases n) (auto simp: route_query_def path_map_def split: if_splits)

text \<open>
  Running the graph from a node: the nodes whose functions were called, in order, and
  the final state, or the exception that ended the run.
\<close>

function run_from :: "env \<Rightarrow> node \<Rightarrow> medication_state \<Rightarrow> node list \<times> (py_exn + medication_state)" where
  "run_from E n state =
     (case apply_update E (node_action E n state) of
        Inl e \<Rightarrow> ([n], Inl e)
      | Inr state' \<Rightarrow>
          (case next_node n state' of
             None \<Rightarrow> ([n], Inr state')
           | Some m \<Rightarrow> (let (ns, final) = run_from E m state' in (n # ns, final))))"
  by pat_completeness auto
termination
  by (relation "measure (\<lambda>(E, n, s). 5 - node_rank n)")
     (auto dest!: next_node_rank, (case_tac n; simp)+)

declare run_from.simps [simp del]

text \<open>\<open>medication_workflow.invoke\<close>: the run from the entry point.\<close>

definition invoke :: "env \<Rightarrow> medication_state \<Rightarrow> node list \<times> (py_exn + medication_state)" where
  "invoke E initial_state = run_from E RouteQuery initial_state"




section \<open>app/main.py\<close>

text \<open>\<open>APIResponse\<close> without its time stamp; \<open>error\<close> and \<open>disclaimer\<close> default to \<open>""\<close>.\<close>

record api_response =
  api_status :: pystr
  api_data :: pydict
  api_error :: pystr
  api_disclaimer :: pystr

definition api_error_text :: pystr where
  "api_error_text =
     u ''Nastala chyba p'' @ [345] @ u ''i zpracov'' @ [225] @ u ''n'' @ [237]
     @ u '' dotazu. Zkuste to pros'' @ [237] @ u ''m znovu.''"

definition api_error_image :: pystr where
  "api_error_image =
     u ''Nastala chyba p'' @ [345] @ u ''i zpracov'' @ [225] @ u ''n'' @ [237]
     @ u '' obr'' @ [225] @ u ''zku. Zkuste to pros'' @ [237] @ u ''m znovu s lep''
     @ [353, 237] @ u ''m osv'' @ [283] @ u ''tlen'' @ [237] @ u ''m.''"

definition error_response :: "pystr \<Rightarrow> api_response" where
  "error_response message =
     \<lparr> api_status = u ''error'', api_data = [], api_error = message, api_disclaimer = [] \<rparr>"

definition initial_text_state :: "pystr \<Rightarrow> medication_state" where
  "initial_text_state query =
     \<lparr> ms_query = query, ms_query_type = u ''text'', ms_image_data = None,
       ms_extracted_text = None, ms_medication_info = None, ms_safety_warnings = [],
       ms_disclaimer = [], ms_confidence_score = 0, ms_sources = [], ms_error = None \<rparr>"

definition initial_image_state :: "pystr \<Rightarrow> medication_state" where
  "initial_image_state image_data =
     \<lparr> ms_query = [], ms_query_type = u ''image'', ms_image_data = Some image_data,
       ms_extracted_text = None, ms_medication_info = None, ms_safety_warnings = [],
       ms_disclaimer = [], ms_confidence_score = 0, ms_sources = [], ms_error = None \<rparr>"

text \<open>
  \<open>text_query\<close>. Both \<open>HTTPException\<close>s are raised inside the \<open>try\<close> block and caught
  by its \<open>except Exception\<close>, which answers with the error response; so is an
  exception that leaves \<open>invoke\<close>.
\<close>

definition text_query :: "env \<Rightarrow> pystr \<Rightarrow> api_response" where
  "text_query E query =
     (if py_strip query = [] then error_response api_error_text
      else
        (case snd (invoke E (initial_text_state query)) of
           Inl e \<Rightarrow> error_response api_error_text
         | Inr final_state \<Rightarrow>
             if present (ms_error final_state) then error_response api_error_text
             else
               (let medication_info = ms_medication_info final_state;
                    response_data =
                      (case medication_info of
                         Some info \<Rightarrow>
                           if dhas info (u ''answer'') then info
                           else [(u ''medication_info'', PDict info),
                                 (u ''confidence_score'', PFloat (ms_confidence_score final_state)),
                                 (u ''sources'', PList (ms_sources final_state))]
                       | None \<Rightarrow>
                           [(u ''medication_info'', PNone),
                            (u ''confidence_score'', PFloat (ms_confidence_score final_state)),
                            (u ''sources'', PList (ms_sources final_state))])
                in
                \<lparr> api_status = u ''success'', api_data = response_data, api_error = [],
                  api_disclaimer = py_strip (ms_disclaimer final_state) \<rparr>)))"

text \<open>
  \<open>image_query\<close>. \<open>data=None\<close> does not validate as a dictionary, so a state without
  information ends in the handler as well.
\<close>

definition image_query :: "env \<Rightarrow> pystr \<Rightarrow> api_response" where
  "image_query E image_data =
     (if py_strip image_data = [] then error_response api_error_image
      else
        (case snd (invoke E (initial_image_state image_data)) of
           Inl e \<Rightarrow> error_response api_error_image
         | Inr final_state \<Rightarrow>
             if present (ms_error final_state) then error_response api_error_image
             else
               (case ms_medication_info final_state of
                  None \<Rightarrow> error_response api_error_image
                | Some info \<Rightarrow>
                    \<lparr> api_status = u ''success'', api_data = info, api_error = [],
                      api_disclaimer = py_strip (ms_disclaimer final_state) \<rparr>)))"

section \<open>Scenarios\<close>

text \<open>
  The file of the repository's test \<open>test_encoding_detection\<close>: two columns and one
  row, \<open>NAZEV,UCINNE_LATKY\<close> and \<open>Paralen,Paracetamol\<close>. With the comma it parses
  into two columns, with the other separators into one.
\<close>

definition two_column_frame :: dataframe where
  "two_column_frame =
     \<lparr> df_columns = [u ''NAZEV'', u ''UCINNE_LATKY''],
       df_object_columns = [u ''NAZEV'', u ''UCINNE_LATKY''],
       df_rows = [[u ''NAZEV'' \<mapsto> Cell (u ''Paralen''), u ''UCINNE_LATKY'' \<mapsto> Cell (u ''Paracetamol'')]] \<rparr>"

definition one_column_frame :: dataframe where
  "one_column_frame =
     \<lparr> df_columns = [u ''NAZEV,UCINNE_LATKY''],
       df_object_columns = [u ''NAZEV,UCINNE_LATKY''],
       df_rows = [[u ''NAZEV,UCINNE_LATKY'' \<mapsto> Cell (u ''Paralen,Paracetamol'')]] \<rparr>"

definition encoding_test_file :: csv_env where
  "encoding_test_file =
     \<lparr> path_exists = (\<lambda>p. p = u ''test.csv''),
       chardet_detect = (\<lambda>p. Inr (Some (u ''ascii''), 1)),
       parse_csv = (\<lambda>p encoding sep. if sep = u '','' then Inr two_column_frame else Inr one_column_frame) \<rparr>"

text \<open>
  The case mappings of the scenarios, written out for the blocks Basic Latin, Latin-1
  Supplement and Latin Extended-A, which hold the Czech alphabet; the scenarios apply
  them to strings of these blocks only. Capital I with dot above (304) has a lower case
  of two code points and sharp s (223) an upper case of two, so the mappings are string
  valued.
\<close>

definition lower_cp :: "nat \<Rightarrow> pystr" where
  "lower_cp c =
     (if 65 \<le> c \<and> c \<le> 90 then [c + 32]
      else if 192 \<le> c \<and> c \<le> 222 \<and> c \<noteq> 215 then [c + 32]
      else if c = 304 then [105, 775]
      else if 256 \<le> c \<and> c \<le> 311 \<and> even c then [c + 1]
      else if 313 \<le> c \<and> c \<le> 328 \<and> odd c then [c + 1]
      else if 330 \<le> c \<and> c \<le> 375 \<and> even c then [c + 1]
      else if c = 376 then [255]
      else if 377 \<le> c \<and> c \<le> 382 \<and> odd c then [c + 1]
      else [c])"

definition latin_lower :: "pystr \<Rightarrow> pystr" where
  "latin_lower s = concat (map lower_cp s)"

definition upper_cp :: "nat \<Rightarrow> pystr" where
  "upper_cp c =
     (if 97 \<le> c \<and> c \<le> 122 then [c - 32]
      else if c = 181 then [924]
      else if c = 223 then [83, 83]
      else if 224 \<le> c \<and> c \<le> 254 \<and> c \<noteq> 247 then [c - 32]
      else if c = 255 then [376]
      else if c = 305 then [73]
      else if 257 \<le> c \<and> c \<le> 311 \<and> odd c then [c - 1]
      else if 314 \<le> c \<and> c \<le> 328 \<and> even c then [c - 1]
      else if c = 329 then [700, 78]
      else if 331 \<le> c \<and> c \<le> 375 \<and> odd c then [c - 1]
      else if 378 \<le> c \<and> c \<le> 382 \<and> even c then [c - 1]
      else if c = 383 then [83]
      else [c])"

definition latin_upper :: "pystr \<Rightarrow> pystr" where
  "latin_upper s = concat (map upper_cp s)"

text \<open>
  A store that holds the PARALEN document and returns it for every query, a
  recognition of its package with an unreadable active ingredient, and services that
  all answer.
\<close>

definition paralen_row :: match_row where
  "paralen_row =
     \<lparr> row_id = PInt 1,
       row_content = doc_content (document_of paralen),
       row_metadata = doc_metadata (document_of paralen),
       row_similarity = float64 (9 / 10) \<rparr>"

definition paralen_vision :: vision_result where
  "paralen_vision =
     \<lparr> vr_name = u ''PARALEN'',
       vr_active_ingredient = placeholder,
       vr_strength = u ''500 mg'',
       vr_form = placeholder,
       vr_manufacturer = placeholder,
       vr_registration_number = placeholder,
       vr_confidence_score = float64 (7 / 10),
       vr_warning = Some warning_medium,
       vr_validated = None,
       vr_sukl_matches = None \<rparr>"

definition working_env :: env where
  "working_env =
     \<lparr> store_init = None,
       match_rpc = (\<lambda>query limit. Inr [paralen_row]),
       vision_init = None,
       process_image = (\<lambda>image. paralen_vision),
       text_init = None,
       qa_run = (\<lambda>query. Inr answer_four_hits),
       py_repr = (\<lambda>v. []),
       pydantic_message = (\<lambda>vs. []),
       str_lower = latin_lower,
       str_upper = latin_upper,
       update_message = (\<lambda>s. u ''Expected dict, got '' @ s) \<rparr>"


definition jpeg_payload :: pystr where
  "jpeg_payload = u ''/9j/4AAQSkZJRgABAQEAAAAAAAD''"

definition extracted_state :: medication_state where
  "extracted_state = extract_medication_from_image working_env (initial_image_state jpeg_payload)"

definition generation_down_env :: env where
  "generation_down_env =
     working_env \<lparr> qa_run := (\<lambda>query. Inl (Exn ExternalError (u ''Connection error.''))) \<rparr>"

definition store_down_env :: env where
  "store_down_env =
     working_env \<lparr> store_init := Some (Exn ValueError (u ''SUPABASE_URL a SUPABASE_ANON_KEY environment variables'')) \<rparr>"



text \<open>The information of \<open>extracted_state\<close> after the merge with the PARALEN metadata.\<close>

definition merged_info :: pydict where
  "merged_info =
     [(u ''name'', PStr (u ''PARALEN'')),
      (u ''active_ingredient'', PStr (u ''Paracetamolum'')),
      (u ''strength'', PStr (u ''500 mg'')),
      (u ''form'', PStr placeholder),
      (u ''manufacturer'', PStr placeholder),
      (u ''registration_number'', PStr placeholder),
      (u ''confidence_score'', PFloat (float64 (7 / 10))),
      (u ''warning'', PStr warning_medium),
      (u ''validated'', PNone),
      (u ''sukl_matches'', PNone)]"


text \<open>
  The table of the repository's test \<open>test_extract_medication_info_with_missing_data\<close>:
  three rows, of which the second has an empty name and the third none.
\<close>

definition missing_data_frame :: dataframe where
  "missing_data_frame =
     \<lparr> df_columns = [u ''NAZEV'', u ''UCINNE_LATKY'', u ''SILA''],
       df_object_columns = [u ''NAZEV'', u ''UCINNE_LATKY'', u ''SILA''],
       df_rows =
         [[u ''NAZEV'' \<mapsto> Cell (u ''PARALEN 500MG''), u ''UCINNE_LATKY'' \<mapsto> Cell (u ''Paracetamolum''),
           u ''SILA'' \<mapsto> Cell (u ''500 mg'')],
          [u ''NAZEV'' \<mapsto> Cell [], u ''UCINNE_LATKY'' \<mapsto> Cell (u ''Ibuprofenum''),
           u ''SILA'' \<mapsto> Cell (u ''400 mg'')],
          [u ''NAZEV'' \<mapsto> PyNone, u ''UCINNE_LATKY'' \<mapsto> Cell [],
           u ''SILA'' \<mapsto> Cell (u ''200 mg'')]] \<rparr>"

chapter \<open>Properties\<close>

section \<open>Floating point\<close>

lemma halvings_numeral:
  "halvings (numeral n) x = (if x < 2 then 0 else Suc (halvings (pred_numeral n) (x / 2)))"
  by (simp add: numeral_eq_Suc)

lemma doublings_numeral:
  "doublings (numeral n) x = (if 1 \<le> x then 0 else Suc (doublings (pred_numeral n) (2 * x)))"
  by (simp add: numeral_eq_Suc)

lemmas float64_eval =
  float64_def binade_def pow2_def round_half_even_def Let_def halvings_numeral doublings_numeral

text \<open>The literals of the sources.\<close>

lemma float64_0_2: "float64 (2 / 10) = 3602879701896397 / 18014398509481984"
  by (simp add: float64_eval)

lemma float64_0_3: "float64 (3 / 10) = 5404319552844595 / 18014398509481984"
  by (simp add: float64_eval)

lemma float64_0_4: "float64 (4 / 10) = 3602879701896397 / 9007199254740992"
  by (simp add: float64_eval)

lemma float64_0_6: "float64 (6 / 10) = 5404319552844595 / 9007199254740992"
  by (simp add: float64_eval)

lemma float64_0_7: "float64 (7 / 10) = 3152519739159347 / 4503599627370496"
  by (simp add: float64_eval)

lemma float64_0_8: "float64 (8 / 10) = 3602879701896397 / 4503599627370496"
  by (simp add: float64_eval)

lemma float64_0_9: "float64 (9 / 10) = 8106479329266893 / 9007199254740992"
  by (simp add: float64_eval)

text \<open>The same literals as the simplifier writes them.\<close>

lemma float64_fifths:
  "float64 (1 / 5) = 3602879701896397 / 18014398509481984"
  "float64 (2 / 5) = 3602879701896397 / 9007199254740992"
  "float64 (3 / 5) = 5404319552844595 / 9007199254740992"
  "float64 (4 / 5) = 3602879701896397 / 4503599627370496"
  by (simp_all add: float64_eval)

lemma float64_0: "float64 0 = 0"
  by (simp add: float64_eval)

lemma float64_1: "float64 1 = 1"
  by (simp add: float64_eval)

lemma round_half_even_le: "x \<le> of_int N \<Longrightarrow> round_half_even x \<le> N"
proof -
  assume h: "x \<le> of_int N"
  define n where "n = \<lfloor>x\<rfloor>"
  have nN: "n \<le> N" unfolding n_def using h by (simp add: floor_le_iff)
  have eq: "n = N \<Longrightarrow> x - of_int n = 0"
  proof -
    assume "n = N"
    then have "of_int N \<le> x" unfolding n_def by linarith
    then show ?thesis using h \<open>n = N\<close> by simp
  qed
  show ?thesis
    unfolding round_half_even_def Let_def n_def [symmetric]
    using nN eq by (cases "n = N") auto
qed

lemma round_half_even_nonneg: "0 \<le> x \<Longrightarrow> 0 \<le> round_half_even x"
  unfolding round_half_even_def Let_def by auto

lemma pow2_pos: "0 < pow2 k"
  by (simp add: pow2_def)

lemma float64_nonneg: "0 \<le> x \<Longrightarrow> 0 \<le> float64 x"
  unfolding float64_def Let_def
  using round_half_even_nonneg [of "x / pow2 (binade x - 52)"] pow2_pos [of "binade x - 52"]
  by (simp add: less_imp_le)

lemma float64_nonpos: "x \<le> 0 \<Longrightarrow> float64 x \<le> 0"
proof -
  assume h: "x \<le> 0"
  let ?q = "pow2 (binade x - 52)"
  have "x / ?q \<le> of_int 0" using h pow2_pos [of "binade x - 52"]
    by (simp add: divide_nonpos_pos less_imp_le)
  then have "round_half_even (x / ?q) \<le> 0" by (rule round_half_even_le)
  then have "(of_int (round_half_even (x / ?q)) :: real) \<le> 0" by simp
  then show ?thesis
    unfolding float64_def Let_def
    using pow2_pos [of "binade x - 52"] by (simp add: mult_le_0_iff less_imp_le)
qed

lemma binade_le_0: "\<bar>x\<bar> \<le> 1 \<Longrightarrow> binade x \<le> 0"
  by (simp add: binade_def halvings_numeral)

lemma float64_le_1: "x \<le> 1 \<Longrightarrow> float64 x \<le> 1"
proof (cases "x \<le> 0")
  case True
  then show ?thesis using float64_nonpos [of x] by simp
next
  case False
  assume h: "x \<le> 1"
  have "\<bar>x\<bar> \<le> 1" using False h by simp
  then have b: "binade x \<le> 0" by (rule binade_le_0)
  define m where "m = nat (52 - binade x)"
  have q: "pow2 (binade x - 52) = 1 / 2 ^ m"
    using b by (simp add: pow2_def m_def)
  have "x / (1 / 2 ^ m) \<le> of_int (2 ^ m)" using h by simp
  then have "round_half_even (x / (1 / 2 ^ m)) \<le> 2 ^ m" by (rule round_half_even_le)
  then have "(of_int (round_half_even (x / (1 / 2 ^ m))) :: real) \<le> 2 ^ m"
    by (metis of_int_le_iff of_int_numeral of_int_power)
  then show ?thesis
    unfolding float64_def Let_def q by (simp add: field_simps)
qed

lemma round2_bounds:
  assumes "0 \<le> x" "x \<le> 1"
  shows "0 \<le> round2 x \<and> round2 x \<le> 1"
proof -
  have "0 \<le> round_half_even (x * 100)"
    using assms by (intro round_half_even_nonneg) simp
  then have lo: "0 \<le> (of_int (round_half_even (x * 100)) :: real) / 100" by simp
  have "x * 100 \<le> of_int 100" using assms by simp
  then have "round_half_even (x * 100) \<le> 100" by (rule round_half_even_le)
  then have hi: "(of_int (round_half_even (x * 100)) :: real) / 100 \<le> 1" by simp
  show ?thesis
    unfolding round2_def using float64_nonneg [OF lo] float64_le_1 [OF hi] by simp
qed

lemma round2_0: "round2 0 = 0"
  by (simp add: round2_def round_half_even_def float64_0)

lemma round2_1: "round2 1 = 1"
  by (simp add: round2_def round_half_even_def float64_1)

section \<open>Document Builder\<close>

lemma append_if_slot: "append_if ps label v = ps @ slot_lines [(label, v)]"
  by (cases v) (simp_all add: append_if_def present_def)

lemma slot_lines_append: "slot_lines (a @ b) = slot_lines a @ slot_lines b"
  by (induction a rule: slot_lines.induct) simp_all

lemma slot_lines_Cons: "slot_lines (s # ss) = slot_lines [s] @ slot_lines ss"
  using slot_lines_append [of "[s]" ss] by simp

lemma text_parts_slots: "text_parts med = slot_lines (content_slots med)"
proof -
  have "text_parts med =
     slot_lines [(label_name, mi_name med)]
     @ slot_lines [if present (mi_active_ingredient med)
       then (label_active_ingredient, mi_active_ingredient med)
       else (label_atc_code, mi_atc_code med)]
     @ slot_lines [(label_strength, mi_strength med)]
     @ slot_lines [(label_form, mi_form med)]
     @ slot_lines [(label_manufacturer, mi_manufacturer med)]
     @ slot_lines [(label_indication, mi_indication med)]
     @ slot_lines [(label_contraindication, mi_contraindication med)]
     @ slot_lines [(label_side_effects, mi_side_effects med)]
     @ slot_lines [(label_interactions, mi_interactions med)]
     @ slot_lines [(label_dosage, mi_dosage med)]"
    unfolding text_parts_def Let_def append_if_slot by simp
  also have "\<dots> = slot_lines (content_slots med)"
    unfolding content_slots_def
    by (subst (11) slot_lines_Cons, subst (10) slot_lines_Cons)
       (simp only: slot_lines_Cons [symmetric] append_Nil2)
  finally show ?thesis .
qed

lemma paralen_parts:
  "text_parts paralen =
     [u ''N'' @ [225] @ u ''zev: PARALEN 500MG'',
      [218, 269] @ u ''inn'' @ [225] @ u '' l'' @ [225] @ u ''tka: Paracetamolum'',
      u ''S'' @ [237] @ u ''la: 500 mg'',
      u ''L'' @ [233] @ u ''kov'' @ [225] @ u '' forma: Potahovan'' @ [233] @ u '' tablety'']"
  by (simp add: text_parts_def paralen_def no_medication_def append_if_def present_def Let_def
        u_def label_name_def label_active_ingredient_def label_atc_code_def label_strength_def
        label_form_def)

text \<open>
  Claim C8. \<open>create_embedding_texts\<close> returns one document per MedicationRecord, in the
  order of the records, and the content of each is the newline-join of one
  "Label: value" line per present field, in the fixed order name, active ingredient
  or ATC code, strength, form, manufacturer, indication, contraindication, side
  effects, interactions, dosage; an absent field (\<open>None\<close> or the empty string, as the
  truth test of the source reads it) gives no line, and the ATC line stands in the
  second slot when the active ingredient is absent. For the PARALEN 500MG record of
  the scenario the function returns one document, whose content is exactly its four
  lines, in order.
\<close>

theorem document_content_lines:
  "map doc_content (create_embedding_texts medications) =
     map (\<lambda>med. py_join [10] (slot_lines (content_slots med))) medications
   \<and> length (create_embedding_texts medications) = length medications
   \<and> map doc_content (create_embedding_texts [paralen]) =
       [u ''N'' @ [225] @ u ''zev: PARALEN 500MG'' @ [10]
        @ [218, 269] @ u ''inn'' @ [225] @ u '' l'' @ [225] @ u ''tka: Paracetamolum'' @ [10]
        @ u ''S'' @ [237] @ u ''la: 500 mg'' @ [10]
        @ u ''L'' @ [233] @ u ''kov'' @ [225] @ u '' forma: Potahovan'' @ [233] @ u '' tablety'']
   \<and> doc_content (document_of med) = py_join [10] (slot_lines (content_slots med))
   \<and> text_parts paralen =
       [u ''N'' @ [225] @ u ''zev: PARALEN 500MG'',
        [218, 269] @ u ''inn'' @ [225] @ u '' l'' @ [225] @ u ''tka: Paracetamolum'',
        u ''S'' @ [237] @ u ''la: 500 mg'',
        u ''L'' @ [233] @ u ''kov'' @ [225] @ u '' forma: Potahovan'' @ [233] @ u '' tablety'']
   \<and> doc_content (document_of paralen) =
       u ''N'' @ [225] @ u ''zev: PARALEN 500MG'' @ [10]
       @ [218, 269] @ u ''inn'' @ [225] @ u '' l'' @ [225] @ u ''tka: Paracetamolum'' @ [10]
       @ u ''S'' @ [237] @ u ''la: 500 mg'' @ [10]
       @ u ''L'' @ [233] @ u ''kov'' @ [225] @ u '' forma: Potahovan'' @ [233] @ u '' tablety''"
proof -
  have one: "doc_content (document_of m) = py_join [10] (slot_lines (content_slots m))" for m
    by (simp add: document_of_def text_parts_slots)
  have every: "map doc_content (create_embedding_texts medications) =
     map (\<lambda>med. py_join [10] (slot_lines (content_slots med))) medications"
    by (simp add: create_embedding_texts_def one)
  have count: "length (create_embedding_texts medications) = length medications"
    by (simp add: create_embedding_texts_def)
  have par: "doc_content (document_of paralen) =
       u ''N'' @ [225] @ u ''zev: PARALEN 500MG'' @ [10]
       @ [218, 269] @ u ''inn'' @ [225] @ u '' l'' @ [225] @ u ''tka: Paracetamolum'' @ [10]
       @ u ''S'' @ [237] @ u ''la: 500 mg'' @ [10]
       @ u ''L'' @ [233] @ u ''kov'' @ [225] @ u '' forma: Potahovan'' @ [233] @ u '' tablety''"
    by (simp add: document_of_def paralen_parts)
  have built: "map doc_content (create_embedding_texts [paralen]) =
       [u ''N'' @ [225] @ u ''zev: PARALEN 500MG'' @ [10]
        @ [218, 269] @ u ''inn'' @ [225] @ u '' l'' @ [225] @ u ''tka: Paracetamolum'' @ [10]
        @ u ''S'' @ [237] @ u ''la: 500 mg'' @ [10]
        @ u ''L'' @ [233] @ u ''kov'' @ [225] @ u '' forma: Potahovan'' @ [233] @ u '' tablety'']"
    unfolding create_embedding_texts_def list.map par by (rule refl)
  from every count built one [of med] paralen_parts par show ?thesis
    by (intro conjI)
qed

section \<open>Record extraction\<close>

lemma map_of_resolve_columns:
  "distinct (map fst cm) \<Longrightarrow>
   map_of (resolve_columns available cm) field =
     (case map_of cm field of None \<Rightarrow> None | Some aliases \<Rightarrow> first_available available aliases)"
proof (induction cm)
  case Nil
  then show ?case by simp
next
  case (Cons a cm)
  obtain f cols where a: "a = (f, cols)" by (cases a)
  have notin: "field = f \<Longrightarrow> map_of cm field = None"
    using Cons.prems a by (simp add: map_of_eq_None_iff)
  show ?case
    using Cons a notin by (auto split: option.splits)
qed

lemma column_mapping_distinct: "distinct (map fst column_mapping)"
  by (simp add: column_mapping_def u_def)

lemma map_of_med_data:
  "map_of (med_data mapping row) field = map_option (cell_text row) (map_of mapping field)"
  unfolding med_data_def by (induction mapping) auto

lemma md_get_mapped:
  "md_get (med_data (actual_mapping available) row) field = mapped_field available row field"
  unfolding md_get_def mapped_field_def actual_mapping_def map_of_med_data
    map_of_resolve_columns [OF column_mapping_distinct]
  by (simp add: cell_text_def py_strip_def split: option.splits cell.splits)

lemma extract_row_valid:
  "(extract_row (actual_mapping available) row \<noteq> None) = row_valid available row"
  unfolding extract_row_def row_valid_def Let_def md_get_mapped by auto

lemma extract_rows_filter:
  "extract_rows mapping rows =
     map (\<lambda>row. MedicationInfo (med_data mapping row))
       (filter (\<lambda>row. extract_row mapping row \<noteq> None) rows)"
  by (induction rows) (auto simp: extract_row_def Let_def split: option.splits if_splits)

text \<open>
  Claim C4. A parsed row yields a MedicationRecord exactly when its mapped name is
  present (not null, not blank after trimming) and its active ingredient or its ATC
  code is present. Over a whole table the records are those of the valid rows, one
  each and in the order of the rows: every other row is dropped and no valid row is.
\<close>

theorem extraction_keeps_exactly_the_valid_rows:
  "(extract_row (actual_mapping (df_columns df)) row \<noteq> None) = row_valid (df_columns df) row
   \<and> extract_medication_info df =
       map (\<lambda>row. MedicationInfo (med_data (actual_mapping (df_columns df)) row))
         (filter (row_valid (df_columns df)) (df_rows df))
   \<and> mi_name (MedicationInfo (med_data (actual_mapping (df_columns df)) row))
       = mapped_field (df_columns df) row (u ''name'')"
proof -
  have "extract_medication_info df =
       map (\<lambda>row. MedicationInfo (med_data (actual_mapping (df_columns df)) row))
         (filter (row_valid (df_columns df)) (df_rows df))"
    unfolding extract_medication_info_def extract_rows_filter extract_row_valid ..
  moreover have "mi_name (MedicationInfo (med_data (actual_mapping (df_columns df)) row))
       = mapped_field (df_columns df) row (u ''name'')"
    by (simp add: MedicationInfo_def md_get_mapped)
  ultimately show ?thesis
    using extract_row_valid by simp
qed

lemma strips:
  "py_strip (u ''PARALEN 500MG'') = u ''PARALEN 500MG''"
  "py_strip (u ''Paracetamolum'') = u ''Paracetamolum''"
  "py_strip (u ''Ibuprofenum'') = u ''Ibuprofenum''"
  "py_strip (u ''500 mg'') = u ''500 mg''"
  "py_strip [] = []"
  by (simp_all add: py_strip_def u_def is_space_def)

lemma name_aliases:
  "map_of column_mapping (u ''name'') = Some [u ''NAZEV'', u ''nazev'', u ''n'' @ [225] @ u ''zev'']"
  by (simp add: column_mapping_def)


lemma other_aliases:
  "map_of column_mapping (u ''active_ingredient'') =
     Some [u ''UCINNE_LATKY'', u ''ucinne_latky'',
       [250, 269] @ u ''inn'' @ [233] @ u ''_l'' @ [225] @ u ''tky'']"
  "map_of column_mapping (u ''atc_code'') =
     Some [u ''ATC_KOD'', u ''atc_kod'', u ''atc_k'' @ [243] @ u ''d'', u ''ATC_WHO'']"
  by (simp_all add: column_mapping_def u_def)

lemma firsts:
  "first_available (df_columns missing_data_frame) [u ''NAZEV'', u ''nazev'', u ''n'' @ [225] @ u ''zev'']
     = Some (u ''NAZEV'')"
  "first_available (df_columns missing_data_frame)
     [u ''UCINNE_LATKY'', u ''ucinne_latky'', [250, 269] @ u ''inn'' @ [233] @ u ''_l'' @ [225] @ u ''tky'']
     = Some (u ''UCINNE_LATKY'')"
  "first_available (df_columns missing_data_frame)
     [u ''ATC_KOD'', u ''atc_kod'', u ''atc_k'' @ [243] @ u ''d'', u ''ATC_WHO''] = None"
  by (simp_all add: missing_data_frame_def u_def)

lemma fields:
  "mapped_field (df_columns missing_data_frame) row (u ''name'') =
     (case row (u ''NAZEV'') of
        Some (Cell s) \<Rightarrow> if py_strip s = [] then None else Some (py_strip s) | _ \<Rightarrow> None)"
  "mapped_field (df_columns missing_data_frame) row (u ''active_ingredient'') =
     (case row (u ''UCINNE_LATKY'') of
        Some (Cell s) \<Rightarrow> if py_strip s = [] then None else Some (py_strip s) | _ \<Rightarrow> None)"
  "mapped_field (df_columns missing_data_frame) row (u ''atc_code'') = None"
  unfolding mapped_field_def name_aliases other_aliases option.case firsts
  by (rule refl)+


lemma map_row_valid:
  "map (row_valid (df_columns missing_data_frame)) (df_rows missing_data_frame) = [True, False, False]"
  unfolding row_valid_def fields
  by (simp add: missing_data_frame_def present_def strips) (simp add: u_def)

theorem extraction_keeps_exactly_the_valid_rows_witness:
  "map mi_name (extract_medication_info missing_data_frame) = [Some (u ''PARALEN 500MG'')]
   \<and> map (row_valid (df_columns missing_data_frame)) (df_rows missing_data_frame) = [True, False, False]"
proof -
  let ?r = "[u ''NAZEV'' \<mapsto> Cell (u ''PARALEN 500MG''), u ''UCINNE_LATKY'' \<mapsto> Cell (u ''Paracetamolum''),
           u ''SILA'' \<mapsto> Cell (u ''500 mg'')]"
  have rows: "df_rows missing_data_frame = ?r # tl (df_rows missing_data_frame)"
     "length (tl (df_rows missing_data_frame)) = 2"
    by (simp_all add: missing_data_frame_def)
  have f: "filter (row_valid (df_columns missing_data_frame)) (df_rows missing_data_frame) = [?r]"
    using map_row_valid rows
    by (cases "tl (df_rows missing_data_frame)"; cases "tl (tl (df_rows missing_data_frame))")
       (auto simp: missing_data_frame_def)
  have n: "mapped_field (df_columns missing_data_frame) ?r (u ''name'') = Some (u ''PARALEN 500MG'')"
    unfolding fields by (simp add: strips) (simp add: u_def)
  show ?thesis
    using extraction_keeps_exactly_the_valid_rows [of missing_data_frame ?r] map_row_valid
    by (simp add: f n)
qed

section \<open>Confidence heuristic\<close>

lemma count_indicators_card:
  "distinct ks \<Longrightarrow> count_indicators rl ks = card {k \<in> set ks. contains rl k}"
proof (induction ks)
  case Nil
  then show ?case by simp
next
  case (Cons k ks)
  have fin: "finite {x \<in> set ks. contains rl x}" by simp
  have notin: "k \<notin> {x \<in> set ks. contains rl x}" using Cons.prems by simp
  show ?case
  proof (cases "contains rl k")
    case True
    then have "{x \<in> set (k # ks). contains rl x} = insert k {x \<in> set ks. contains rl x}" by auto
    then show ?thesis using Cons True fin notin by simp
  next
    case False
    then have "{x \<in> set (k # ks). contains rl x} = {x \<in> set ks. contains rl x}" by auto
    then show ?thesis using Cons False by simp
  qed
qed

lemma positive_indicators_distinct: "distinct positive_indicators"
  by (simp add: positive_indicators_def u_def)

lemma found_is_distinct_hits:
  "count_indicators (str_lower E response) positive_indicators = distinct_hits E response"
  unfolding distinct_hits_def by (rule count_indicators_card [OF positive_indicators_distinct])

lemma assess_tier:
  "50 \<le> length (py_strip r) \<Longrightarrow> 2 \<le> length s \<Longrightarrow>
   assess_response_confidence E r s = keyword_tier (distinct_hits E r)"
  by (auto simp: assess_response_confidence_def keyword_tier_def found_is_distinct_hits Let_def)

lemma rank_tier_mono: "m \<le> n \<Longrightarrow> confidence_rank (keyword_tier m) \<le> confidence_rank (keyword_tier n)"
  by (simp add: confidence_rank_def keyword_tier_def u_def)

text \<open>
  Claim C5. The confidence heuristic is a deterministic function of the answer and the
  number of sources: an answer shorter than 50 characters after trimming is low;
  otherwise no source is low; otherwise fewer than two sources is medium; otherwise the
  number of distinct domain keywords that occur in the lower-cased answer decides: at
  least 4 is high, at least 2 is medium, fewer is low. With at least 50 characters and
  at least two sources the result is monotonic in that number and depends on nothing
  else.
\<close>

theorem confidence_heuristic:
  "assess_response_confidence E response sources =
     (if length (py_strip response) < 50 then u ''low''
      else if length sources = 0 then u ''low''
      else if length sources < 2 then u ''medium''
      else keyword_tier (distinct_hits E response))
   \<and> (50 \<le> length (py_strip r1) \<and> 2 \<le> length s1 \<and> 50 \<le> length (py_strip r2) \<and> 2 \<le> length s2
        \<and> distinct_hits E r1 \<le> distinct_hits E r2
      \<longrightarrow> confidence_rank (assess_response_confidence E r1 s1)
            \<le> confidence_rank (assess_response_confidence E r2 s2))
   \<and> (50 \<le> length (py_strip r1) \<and> 2 \<le> length s1 \<and> 50 \<le> length (py_strip r2) \<and> 2 \<le> length s2
        \<and> distinct_hits E r1 = distinct_hits E r2
      \<longrightarrow> assess_response_confidence E r1 s1 = assess_response_confidence E r2 s2)"
proof (intro conjI impI)
  show "assess_response_confidence E response sources =
     (if length (py_strip response) < 50 then u ''low''
      else if length sources = 0 then u ''low''
      else if length sources < 2 then u ''medium''
      else keyword_tier (distinct_hits E response))"
    by (auto simp: assess_response_confidence_def keyword_tier_def found_is_distinct_hits Let_def)
next
  assume "50 \<le> length (py_strip r1) \<and> 2 \<le> length s1 \<and> 50 \<le> length (py_strip r2) \<and> 2 \<le> length s2
        \<and> distinct_hits E r1 \<le> distinct_hits E r2"
  then show "confidence_rank (assess_response_confidence E r1 s1)
            \<le> confidence_rank (assess_response_confidence E r2 s2)"
    by (simp add: assess_tier rank_tier_mono)
next
  assume "50 \<le> length (py_strip r1) \<and> 2 \<le> length s1 \<and> 50 \<le> length (py_strip r2) \<and> 2 \<le> length s2
        \<and> distinct_hits E r1 = distinct_hits E r2"
  then show "assess_response_confidence E r1 s1 = assess_response_confidence E r2 s2"
    by (simp add: assess_tier)
qed

lemma strip_two: "py_strip answer_two_hits = answer_two_hits"
  by (simp add: py_strip_def answer_two_hits_def u_def is_space_def)
lemma strip_four: "py_strip answer_four_hits = answer_four_hits"
  by (simp add: py_strip_def answer_four_hits_def u_def is_space_def)
lemma len_two: "length answer_two_hits = 60"
  by (simp add: answer_two_hits_def u_def)
lemma len_four: "length answer_four_hits = 61"
  by (simp add: answer_four_hits_def u_def)
lemma lower_two: "str_lower working_env answer_two_hits = u ''paralen 500 mg, tablety. dalsi udaje nejsou v databazi sukl.''"
  by (simp add: working_env_def latin_lower_def answer_two_hits_def u_def lower_cp_def)
lemma hits_two: "distinct_hits working_env answer_two_hits = 2"
  unfolding found_is_distinct_hits [symmetric] lower_two
  by (simp add: positive_indicators_def u_def)

lemma lower_four: "str_lower working_env answer_four_hits = u ''paralen 500 mg, tablety; indikace: bolest; 10 ml sirupu. sukl''"
  by (simp add: working_env_def latin_lower_def answer_four_hits_def u_def lower_cp_def)
lemma hits_four: "distinct_hits working_env answer_four_hits = 4"
  unfolding found_is_distinct_hits [symmetric] lower_four
  by (simp add: positive_indicators_def u_def)

theorem confidence_heuristic_witness:
  "assess_response_confidence working_env answer_two_hits [[], []] = u ''medium''
   \<and> assess_response_confidence working_env answer_four_hits [[], [], []] = u ''high''
   \<and> confidence_rank (assess_response_confidence working_env answer_two_hits [[], []])
       \<le> confidence_rank (assess_response_confidence working_env answer_four_hits [[], [], []])"
  using confidence_heuristic [of working_env answer_two_hits "[[], []]" answer_two_hits "[[], []]" answer_four_hits "[[], [], []]"]
    confidence_heuristic [of working_env answer_four_hits "[[], [], []]"]
  by (simp add: strip_two strip_four len_two len_four hits_two hits_four keyword_tier_def confidence_rank_def u_def)

section \<open>Symptom search\<close>

text \<open>
  Claim C9. For every symptom string and every behaviour of the external services, the
  symptom search returns confidence low and an answer that begins with the fixed
  warning banner, followed by the answer of the pipeline on the rewritten query; the
  override does not look at the confidence the pipeline computed, on the success path
  and on the apology path alike.
\<close>

theorem symptom_search_forces_low:
  "tp_confidence (search_by_symptoms E symptoms) = u ''low''
   \<and> prefix warning_banner (tp_answer (search_by_symptoms E symptoms))
   \<and> tp_answer (search_by_symptoms E symptoms) =
       warning_banner @ tp_answer (process_text_query E (warning_query_head @ symptoms @ warning_query_tail))"
  by (simp add: search_by_symptoms_def Let_def)

section \<open>Loading a table\<close>

lemma errors_not_a_parameter: "u ''errors'' \<notin> set read_csv_parameters"
  by (simp add: read_csv_parameters_def u_def)

lemma loop_keywords_accepted:
  "pd_read_csv F p enc sep [u ''encoding'', u ''sep'', u ''low_memory''] = parse_csv F p enc sep"
  by (simp add: pd_read_csv_def read_csv_parameters_def u_def)

lemma fallback_call_raises:
  "pd_read_csv F p enc sep [u ''encoding'', u ''sep'', u ''errors'', u ''low_memory'']
     = Inl (unexpected_keyword (u ''errors''))"
  by (simp add: pd_read_csv_def read_csv_parameters_def u_def)

lemma load_cases:
  "load_sukl_csv F p =
     (if \<not> path_exists F p then Inl (Exn FileNotFoundError (error_not_found_head @ p))
      else case try_encodings F p (detect_encoding F p # map Some supported_encodings) of
        Some df \<Rightarrow> Inr df
      | None \<Rightarrow> Inl (Exn ValueError (error_load_head @ str_exn (unexpected_keyword (u ''errors'')))))"
  by (simp add: load_sukl_csv_def fallback_call_raises split: option.splits)

lemma try_separators_few_columns:
  "(\<And>sep df. parse_csv F p enc sep = Inr df \<Longrightarrow> length (df_columns df) \<le> 5) \<Longrightarrow>
   try_separators F p enc seps = None"
proof (induction seps)
  case Nil
  then show ?case by simp
next
  case (Cons sep seps)
  show ?case
  proof (cases "parse_csv F p enc sep")
    case (Inl e)
    then show ?thesis using Cons by (simp add: loop_keywords_accepted)
  next
    case (Inr df)
    then have "\<not> 5 < length (df_columns df)" using Cons.prems [of sep df] by simp
    moreover have "try_separators F p enc seps = None" using Cons by blast
    ultimately show ?thesis using Inr by (simp add: loop_keywords_accepted)
  qed
qed

lemma try_encodings_few_columns:
  "(\<And>enc sep df. parse_csv F p enc sep = Inr df \<Longrightarrow> length (df_columns df) \<le> 5) \<Longrightarrow>
   try_encodings F p encs = None"
proof (induction encs)
  case Nil
  then show ?case by simp
next
  case (Cons e encs)
  show ?case
  proof (cases e)
    case None
    then show ?thesis using Cons by simp
  next
    case (Some enc)
    have "try_separators F p enc [u '','', u '';'', [9]] = None"
      by (rule try_separators_few_columns) (rule Cons.prems)
    then show ?thesis using Some Cons by simp
  qed
qed

lemma load_wrong_shape_raises:
  assumes "path_exists F p"
    and "\<And>enc sep df. parse_csv F p enc sep = Inr df \<Longrightarrow> length (df_columns df) \<le> 5"
  shows "load_sukl_csv F p =
    Inl (Exn ValueError (error_load_head @ u ''read_csv() got an unexpected keyword argument ''
       @ [39] @ u ''errors'' @ [39]))"
  using assms(1) try_encodings_few_columns [OF assms(2)]
  by (simp add: load_cases unexpected_keyword_def)

lemma load_not_found_iff:
  "(\<exists>msg. load_sukl_csv F p = Inl (Exn FileNotFoundError msg)) \<longleftrightarrow> \<not> path_exists F p"
  by (auto simp: load_cases split: option.splits)

text \<open>
  Claim C7 says that the loader raises only when the path does not resolve, and that a
  file that exists and parses, even into five columns or fewer under every encoding
  and delimiter, is returned as a table by the forced fallback parse. The first half
  holds (\<open>load_not_found_iff\<close>). The second does not hold of the code: the fallback
  call passes the keyword \<open>errors\<close>, which \<open>read_csv\<close> does not have, so the call raises
  and the handler re-raises \<open>ValueError\<close> (\<open>load_wrong_shape_raises\<close>). The theorem
  evaluates the loader on the two-column file of the repository's own test
  \<open>test_encoding_detection\<close>, which expects the table.
\<close>

theorem load_raises_on_two_column_file:
  "path_exists encoding_test_file (u ''test.csv'')
   \<and> parse_csv encoding_test_file (u ''test.csv'') (u ''utf-8'') (u '','') = Inr two_column_frame
   \<and> load_sukl_csv encoding_test_file (u ''test.csv'') =
       Inl (Exn ValueError (error_load_head @ u ''read_csv() got an unexpected keyword argument ''
         @ [39] @ u ''errors'' @ [39]))"
proof -
  have ex: "path_exists encoding_test_file (u ''test.csv'')"
    by (simp add: encoding_test_file_def)
  have few: "\<And>enc sep df. parse_csv encoding_test_file (u ''test.csv'') enc sep = Inr df
      \<Longrightarrow> length (df_columns df) \<le> 5"
    by (auto simp: encoding_test_file_def two_column_frame_def one_column_frame_def split: if_splits)
  show ?thesis
    using ex load_wrong_shape_raises [OF ex few]
    by (simp add: encoding_test_file_def)
qed

section \<open>Recognition score\<close>

lemma dget_dset: "dget (dset d k v) k' = (if k' = k then Some v else dget d k')"
  by (induction d) (auto simp: dget_def)

lemma dhas_dget: "dhas d k \<longleftrightarrow> dget d k \<noteq> None"
  by (simp add: dhas_def dget_def)

lemma keys_dset: "dhas d k \<Longrightarrow> map fst (dset d k v) = map fst d"
  by (induction d) (auto simp: dhas_def)

lemma set_keys_dset: "set (map fst (dset d k v)) = insert k (set (map fst d))"
proof (induction d)
  case Nil
  then show ?case by simp
next
  case (Cons a d)
  obtain k' v' where a: "a = (k', v')" by (cases a)
  show ?case
  proof (cases "k' = k")
    case True
    then show ?thesis using a by simp
  next
    case False
    then show ?thesis using a Cons by (simp add: insert_commute)
  qed
qed

lemma distinct_dset: "distinct (map fst d) \<Longrightarrow> distinct (map fst (dset d k v))"
proof (induction d)
  case Nil
  then show ?case by simp
next
  case (Cons a d)
  obtain k' v' where a: "a = (k', v')" by (cases a)
  have "k' \<notin> set (map fst (dset d k v))" if "k' \<noteq> k"
    using that Cons.prems a by (simp only: set_keys_dset) auto
  then show ?case using Cons a by auto
qed

lemma backfill_keeps:
  "dget d k = Some v \<Longrightarrow> v \<noteq> PStr placeholder \<Longrightarrow> dget (backfill m d) k = Some v"
proof (induction m arbitrary: d)
  case Nil
  then show ?case by simp
next
  case (Cons a m)
  obtain key val where a: "a = (key, val)" by (cases a)
  show ?case
    unfolding a backfill.simps
    by (rule Cons.IH) (use Cons.prems in \<open>auto simp: dget_dset dhas_dget\<close>)
qed

lemma backfill_distinct: "distinct (map fst d) \<Longrightarrow> distinct (map fst (backfill m d))"
proof (induction m arbitrary: d)
  case Nil
  then show ?case by simp
next
  case (Cons a m)
  obtain key val where a: "a = (key, val)" by (cases a)
  show ?case
    unfolding a backfill.simps
    by (rule Cons.IH) (use Cons.prems in \<open>auto simp: distinct_dset\<close>)
qed

lemma backfill_dhas: "dhas d k \<Longrightarrow> dhas (backfill m d) k"
proof (induction m arbitrary: d)
  case Nil
  then show ?case by simp
next
  case (Cons a m)
  obtain key val where a: "a = (key, val)" by (cases a)
  show ?case
    unfolding a backfill.simps
    by (rule Cons.IH) (use Cons.prems in \<open>auto simp: dhas_dget dget_dset\<close>)
qed

lemma set_attrs_keys: "map fst (set_attrs vr attrs) = map fst attrs"
proof (induction vr arbitrary: attrs)
  case Nil
  then show ?case by simp
next
  case (Cons a vr)
  obtain key val where a: "a = (key, val)" by (cases a)
  show ?case
    unfolding a set_attrs.simps by (simp add: Cons.IH keys_dset)
qed

lemma set_attrs_get:
  "distinct (map fst vr) \<Longrightarrow>
   dget (set_attrs vr attrs) k = (if dhas attrs k \<and> dhas vr k then dget vr k else dget attrs k)"
proof (induction vr arbitrary: attrs)
  case Nil
  then show ?case by (simp add: dhas_def)
next
  case (Cons a vr)
  obtain key val where a: "a = (key, val)" by (cases a)
  have d: "distinct (map fst vr)" and notin: "key \<notin> fst ` set vr"
    using Cons.prems a by auto
  have nokey: "dget vr key = None"
    using notin by (simp add: dget_def map_of_eq_None_iff)
  have hd: "dget ((key, val) # vr) k = (if k = key then Some val else dget vr k)"
    by (simp add: dget_def)
  show ?case
    unfolding a set_attrs.simps Cons.IH [OF d] dhas_dget hd
    using nokey by (auto simp: dget_dset)
qed

text \<open>The penalties one by one: a number in [0, 1] is never refused.\<close>

lemma float_sub_num:
  assumes "num_of v = Some c" "0 \<le> c" "c \<le> 1"
  shows "float_sub v y = Inr (float64 (c - y))"
proof (cases v)
  case (PInt i)
  then have c: "c = of_int i" using assms by simp
  then have "i = 0 \<or> i = 1" using assms by auto
  then show ?thesis
    using PInt c by (auto simp: float_sub_def int_to_float_def float64_0 float64_1)
qed (use assms in \<open>auto simp: float_sub_def\<close>)

lemma penalise_num:
  assumes "num_of v = Some c" "0 \<le> c" "c \<le> 1"
  shows "penalise v y = Inr (PFloat (max 0 (float64 (c - y))))"
  unfolding penalise_def float_sub_num [OF assms] by (simp add: max_def)

lemma py_round2_num:
  assumes "num_of v = Some c" "0 \<le> c" "c \<le> 1"
  shows "num_of (py_round2 v) = Some (round2 c)"
proof (cases v)
  case (PInt i)
  then have c: "c = of_int i" using assms by simp
  then have "i = 0 \<or> i = 1" using assms by auto
  then show ?thesis
    using PInt c by (auto simp: round2_0 round2_1)
qed (use assms in \<open>auto simp: round2_0 round2_1\<close>)

lemma penalty_bounds:
  assumes "0 \<le> y" "c \<le> 1"
  shows "0 \<le> max 0 (float64 (c - y))" "max 0 (float64 (c - y)) \<le> 1"
proof -
  have "c - y \<le> 1" using assms by simp
  then have "float64 (c - y) \<le> 1" by (rule float64_le_1)
  then show "max 0 (float64 (c - y)) \<le> 1" by simp
qed simp

lemma literal_nonneg: "0 \<le> float64 (3 / 10)" "0 \<le> float64 (2 / 10)"
  by (simp_all add: float64_nonneg)

text \<open>
  The floor of the source after the first penalty does not show in the result: a
  difference below 0 stays below 0 through the second penalty.
\<close>

lemma floor_once:
  assumes "0 \<le> y"
  shows "max 0 (float64 (max 0 d - y)) = max 0 (float64 (d - y))"
proof (cases "0 \<le> d")
  case True
  then show ?thesis by (simp add: max_absorb2)
next
  case False
  then have "d - y \<le> 0" "0 - y \<le> 0" using assms by simp_all
  then have "float64 (d - y) \<le> 0" "float64 (0 - y) \<le> 0"
    by (simp_all only: float64_nonpos)
  then show ?thesis using False by (simp add: max_def)
qed

lemma quality_step_num:
  assumes n: "num_of (dget_or result_data (u ''confidence_score'') (PFloat 0)) = Some c"
    and c0: "0 \<le> c" and c1: "c \<le> 1"
  shows "\<exists>data v. validate_recognition_quality result_data = Inr data
     \<and> dget data (u ''confidence_score'') = Some v
     \<and> num_of v = Some (adjusted_score result_data c)"
proof -
  define v0 where "v0 = dget_or result_data (u ''confidence_score'') (PFloat 0)"
  define mn where "mn = missing (dget_or result_data (u ''name'') (PStr []))"
  define ma where "ma = missing (dget_or result_data (u ''active_ingredient'') (PStr []))"
  define k3 where "k3 = float64 (3 / 10)"
  define k2 where "k2 = float64 (2 / 10)"
  have k: "0 \<le> k3" "0 \<le> k2" unfolding k3_def k2_def by (rule literal_nonneg)+
  have n': "num_of v0 = Some c" using n by (simp add: v0_def)
  define d1 where "d1 = max 0 (float64 (c - k3))"
  have d1: "0 \<le> d1" "d1 \<le> 1"
    unfolding d1_def using penalty_bounds [OF k(1) c1] by simp_all
  have p1: "penalise v0 k3 = Inr (PFloat d1)"
    unfolding d1_def by (rule penalise_num [OF n' c0 c1])
  have p2: "penalise (PFloat d1) k2 = Inr (PFloat (max 0 (float64 (d1 - k2))))"
    by (rule penalise_num) (use d1 in simp_all)
  have p3: "penalise v0 k2 = Inr (PFloat (max 0 (float64 (c - k2))))"
    by (rule penalise_num [OF n' c0 c1])
  have once: "max 0 (float64 (d1 - k2)) = max 0 (float64 (float64 (c - k3) - k2))"
    unfolding d1_def by (rule floor_once [OF k(2)])
  have r0: "num_of (py_round2 v0) = Some (round2 c)"
    by (rule py_round2_num [OF n' c0 c1])
  have lf: "less_float v y = Inr (the (num_of v) < y)" if "num_of v \<noteq> None" for v y
    using that by (auto simp: less_float_def)
  show ?thesis
  proof (cases mn)
    case True
    note mnT = True
    show ?thesis
    proof (cases ma)
      case True
      show ?thesis
        unfolding validate_recognition_quality_def Let_def v0_def [symmetric] mn_def [symmetric]
          ma_def [symmetric] k3_def [symmetric] k2_def [symmetric] adjusted_score_def
        using mnT True
        by (simp add: p1 p2 lf dget_dset once)
    next
      case False
      show ?thesis
        unfolding validate_recognition_quality_def Let_def v0_def [symmetric] mn_def [symmetric]
          ma_def [symmetric] k3_def [symmetric] k2_def [symmetric] adjusted_score_def
        using mnT False d1
        by (simp add: p1 lf dget_dset d1_def [symmetric] max_absorb2)
    qed
  next
    case False
    note mnF = False
    show ?thesis
    proof (cases ma)
      case True
      show ?thesis
        unfolding validate_recognition_quality_def Let_def v0_def [symmetric] mn_def [symmetric]
          ma_def [symmetric] k3_def [symmetric] k2_def [symmetric] adjusted_score_def
        using mnF True
        by (simp add: p3 lf dget_dset)
    next
      case False
      show ?thesis
        unfolding validate_recognition_quality_def Let_def v0_def [symmetric] mn_def [symmetric]
          ma_def [symmetric] k3_def [symmetric] k2_def [symmetric] adjusted_score_def
        using mnF False c0
        by (simp add: lf n' r0 dget_dset max_absorb2)
    qed
  qed
qed

lemma adjusted_score_bounds:
  assumes "0 \<le> c" "c \<le> 1"
  shows "0 \<le> adjusted_score result_data c \<and> adjusted_score result_data c \<le> 1"
proof -
  have le1: "float64 (x - y) \<le> 1" if "x \<le> 1" "0 \<le> y" for x y
    by (rule float64_le_1) (use that in simp)
  show ?thesis
    unfolding adjusted_score_def Let_def
    by (rule round2_bounds) (use assms literal_nonneg in \<open>auto intro!: le1\<close>)
qed

text \<open>What \<open>validate_medication_info\<close> keeps, for every dictionary.\<close>

lemma validate_medication_info_keeps:
  assumes res: "validate_medication_info E d = Inr d'"
    and dist: "distinct (map fst d)"
  shows "distinct (map fst d')"
    and "dhas d k \<Longrightarrow> dhas d' k"
    and "dget d k = Some v \<Longrightarrow> v \<noteq> PStr placeholder \<Longrightarrow> k \<notin> validation_fields \<Longrightarrow> dget d' k = Some v"
proof -
  have c: "d' = d
      \<or> (\<exists>meta matches. d' = backfill meta (dset (dset d (u ''sukl_matches'') matches)
                 (u ''validated'') (PBool True)))
      \<or> d' = dset (dset d (u ''validated'') (PBool False)) (u ''warning'') (PStr warning_not_found)"
    using res unfolding validate_medication_info_def Let_def
    by (auto split: if_splits sum.splits list.splits)
  show "distinct (map fst d')"
    using c dist by (auto intro!: backfill_distinct distinct_dset)
  show "dhas d' k" if h: "dhas d k"
  proof -
    have base: "dhas (dset (dset d a x) b y) k" for a x b y
      using h by (simp add: dhas_dget dget_dset)
    show ?thesis
      using c h base backfill_dhas [OF base] by auto
  qed
  show "dget d k = Some v \<Longrightarrow> v \<noteq> PStr placeholder \<Longrightarrow> k \<notin> validation_fields \<Longrightarrow> dget d' k = Some v"
    using c by (auto intro!: backfill_keeps simp: dget_dset validation_fields_def)
qed

lemma vr_dict_distinct: "distinct (map fst (vr_dict r))"
  by (simp add: vr_dict_def u_def)

lemma vr_dict_name: "dget (vr_dict r) (u ''name'') = Some (PStr (vr_name r))"
  by (simp add: vr_dict_def dget_def)

lemma vr_dict_score: "dget (vr_dict r) (u ''confidence_score'') = Some (PFloat (vr_confidence_score r))"
  by (simp add: vr_dict_def dget_def u_def)

lemma vr_dict_warning: "dhas (vr_dict r) (u ''warning'')"
  by (simp add: vr_dict_def dhas_def u_def)

lemma validate_medication_info_total:
  "\<exists>d'. validate_medication_info E (vr_dict r) = Inr d'"
proof -
  have n: "dget_or (vr_dict r) (u ''name'') PNone = PStr (vr_name r)"
    by (simp add: vr_dict_def dget_or_def)
  have a: "dget_or (vr_dict r) (u ''active_ingredient'') (PStr []) = PStr (vr_active_ingredient r)"
      "dget (vr_dict r) (u ''active_ingredient'') = Some (PStr (vr_active_ingredient r))"
    by (simp_all add: vr_dict_def dget_or_def dget_def u_def)
  have "\<exists>q. build_search_query E (vr_dict r) (PStr (vr_name r)) = Inr q"
    unfolding build_search_query_def a by simp
  then show ?thesis
    unfolding validate_medication_info_def Let_def n
    by (auto split: list.splits)
qed

lemma validate_against_sukl_keeps:
  "\<exists>attrs. validate_against_sukl E (ModelObj (vr_dict r)) = Inr (ModelObj attrs)
     \<and> map fst attrs = map fst (vr_dict r)
     \<and> (\<forall>k v. dget (vr_dict r) k = Some v \<and> v \<noteq> PStr placeholder \<and> k \<notin> validation_fields
           \<longrightarrow> dget attrs k = Some v)"
proof (cases "missing (PStr (vr_name r))")
  case True
  then show ?thesis
    by (simp add: validate_against_sukl_def getattr_def vr_dict_name)
next
  case False
  obtain d' where d': "validate_medication_info E (vr_dict r) = Inr d'"
    using validate_medication_info_total by blast
  note keeps = validate_medication_info_keeps [OF d' vr_dict_distinct]
  have res: "validate_against_sukl E (ModelObj (vr_dict r)) = Inr (ModelObj (set_attrs d' (vr_dict r)))"
    using False by (simp add: validate_against_sukl_def getattr_def vr_dict_name d')
  have "dget (set_attrs d' (vr_dict r)) k = Some v"
    if "dget (vr_dict r) k = Some v" "v \<noteq> PStr placeholder" "k \<notin> validation_fields" for k v
  proof -
    have "dhas (vr_dict r) k" using that(1) by (simp add: dhas_dget)
    then have "dhas d' k" by (rule keeps(2))
    moreover have "dget d' k = Some v" using that by (rule keeps(3))
    ultimately show ?thesis
      using \<open>dhas (vr_dict r) k\<close> by (simp add: set_attrs_get [OF keeps(1)])
  qed
  then show ?thesis
    using res by (auto simp: set_attrs_keys)
qed

text \<open>
  Claim C6. Through the quality adjustment a score in [0, 1] (a float, an integer or
  the default 0.0 of a missing key) stays in [0, 1]: the step stores the score less
  0.3 when the name is missing or the placeholder, less a further 0.2 when the active
  ingredient is, not below 0 and rounded to two decimal places, all in the arithmetic
  of floats. The validation against the store never changes the score of a
  recognition result, so it never increases it: on the dictionary of the result and on
  the result object alike, every field that held a real value keeps it, apart from
  \<open>validated\<close>, \<open>sukl_matches\<close> and \<open>warning\<close>, and the object keeps its fields.
\<close>

theorem confidence_score_stays_in_range:
  "(num_of (dget_or result_data (u ''confidence_score'') (PFloat 0)) = Some c \<and> 0 \<le> c \<and> c \<le> 1 \<longrightarrow>
      (\<exists>data v. validate_recognition_quality result_data = Inr data
         \<and> dget data (u ''confidence_score'') = Some v
         \<and> num_of v = Some (adjusted_score result_data c)
         \<and> 0 \<le> adjusted_score result_data c \<and> adjusted_score result_data c \<le> 1))
   \<and> (\<exists>d. validate_medication_info E (vr_dict r) = Inr d
         \<and> dget d (u ''confidence_score'') = Some (PFloat (vr_confidence_score r))
         \<and> (\<forall>k v. dget (vr_dict r) k = Some v \<and> v \<noteq> PStr placeholder \<and> k \<notin> validation_fields
               \<longrightarrow> dget d k = Some v))
   \<and> (\<exists>attrs. validate_against_sukl E (ModelObj (vr_dict r)) = Inr (ModelObj attrs)
         \<and> dget attrs (u ''confidence_score'') = Some (PFloat (vr_confidence_score r))
         \<and> map fst attrs = map fst (vr_dict r)
         \<and> (\<forall>k v. dget (vr_dict r) k = Some v \<and> v \<noteq> PStr placeholder \<and> k \<notin> validation_fields
               \<longrightarrow> dget attrs k = Some v))"
proof (intro conjI impI)
  assume h: "num_of (dget_or result_data (u ''confidence_score'') (PFloat 0)) = Some c \<and> 0 \<le> c \<and> c \<le> 1"
  then show "\<exists>data v. validate_recognition_quality result_data = Inr data
         \<and> dget data (u ''confidence_score'') = Some v
         \<and> num_of v = Some (adjusted_score result_data c)
         \<and> 0 \<le> adjusted_score result_data c \<and> adjusted_score result_data c \<le> 1"
    using quality_step_num [of result_data c] adjusted_score_bounds [of c result_data]
    by blast
next
  have score_free: "u ''confidence_score'' \<notin> validation_fields"
    by (simp add: validation_fields_def u_def)
  obtain d where d: "validate_medication_info E (vr_dict r) = Inr d"
    using validate_medication_info_total by blast
  note keeps = validate_medication_info_keeps [OF d vr_dict_distinct]
  show "\<exists>d. validate_medication_info E (vr_dict r) = Inr d
         \<and> dget d (u ''confidence_score'') = Some (PFloat (vr_confidence_score r))
         \<and> (\<forall>k v. dget (vr_dict r) k = Some v \<and> v \<noteq> PStr placeholder \<and> k \<notin> validation_fields
               \<longrightarrow> dget d k = Some v)"
    using d keeps(3) [OF vr_dict_score _ score_free] keeps(3) by auto
next
  have score_free: "u ''confidence_score'' \<notin> validation_fields"
    by (simp add: validation_fields_def u_def)
  obtain attrs where a: "validate_against_sukl E (ModelObj (vr_dict r)) = Inr (ModelObj attrs)"
      "map fst attrs = map fst (vr_dict r)"
      "\<forall>k v. dget (vr_dict r) k = Some v \<and> v \<noteq> PStr placeholder \<and> k \<notin> validation_fields
           \<longrightarrow> dget attrs k = Some v"
    using validate_against_sukl_keeps by blast
  have "dget attrs (u ''confidence_score'') = Some (PFloat (vr_confidence_score r))"
    using a(3) vr_dict_score score_free by auto
  then show "\<exists>attrs. validate_against_sukl E (ModelObj (vr_dict r)) = Inr (ModelObj attrs)
         \<and> dget attrs (u ''confidence_score'') = Some (PFloat (vr_confidence_score r))
         \<and> map fst attrs = map fst (vr_dict r)
         \<and> (\<forall>k v. dget (vr_dict r) k = Some v \<and> v \<noteq> PStr placeholder \<and> k \<notin> validation_fields
               \<longrightarrow> dget attrs k = Some v)"
    using a by blast
qed

text \<open>
  A score of 0.875 with an unreadable name: 0.875 - 0.3 is 0.57499999999999996 in
  floats, which rounds to 0.57 (in exact arithmetic the difference is 0.575 and the
  rounding 0.58).
\<close>

lemma adjusted_example:
  "adjusted_score [(u ''name'', PStr placeholder), (u ''active_ingredient'', PStr (u ''Paracetamolum'')),
      (u ''confidence_score'', PFloat (7 / 8))] (7 / 8) = float64 (57 / 100)"
proof -
  have d: "float64 (7 / 8 - float64 (3 / 10)) = 5179139571476070 / 9007199254740992"
    unfolding float64_0_3 by (simp add: float64_eval)
  show ?thesis
    unfolding adjusted_score_def Let_def
    by (simp add: missing_def dget_or_def u_def placeholder_def d round2_def round_half_even_def)
qed

text \<open>
  A score of 0.6 with an unreadable active ingredient: 0.6 - 0.2 is
  0.39999999999999997 in floats, below 0.4, so the warning is that of the lowest band.
\<close>

lemma lowest_band_example:
  "validate_recognition_quality
     [(u ''name'', PStr (u ''PARALEN'')), (u ''active_ingredient'', PStr placeholder),
      (u ''confidence_score'', PFloat (float64 (6 / 10)))] =
   Inr [(u ''name'', PStr (u ''PARALEN'')), (u ''active_ingredient'', PStr placeholder),
        (u ''confidence_score'', PFloat (float64 (4 / 10))),
        (u ''warning'', PStr warning_very_low)]"
  by (simp add: validate_recognition_quality_def penalise_def float_sub_def less_float_def
      dget_or_def missing_def placeholder_def u_def round2_def float64_eval)

theorem confidence_score_stays_in_range_witness:
  "(\<exists>data v. validate_recognition_quality
        [(u ''name'', PStr placeholder), (u ''active_ingredient'', PStr (u ''Paracetamolum'')),
         (u ''confidence_score'', PFloat (7 / 8))] = Inr data
      \<and> dget data (u ''confidence_score'') = Some v \<and> num_of v = Some (float64 (57 / 100)))
   \<and> (\<exists>attrs. validate_against_sukl working_env (ModelObj (vr_dict paralen_vision)) = Inr (ModelObj attrs)
      \<and> dget attrs (u ''confidence_score'') = Some (PFloat (float64 (7 / 10)))
      \<and> dget attrs (u ''strength'') = Some (PStr (u ''500 mg'')))"
proof -
  let ?rd = "[(u ''name'', PStr placeholder), (u ''active_ingredient'', PStr (u ''Paracetamolum'')),
         (u ''confidence_score'', PFloat (7 / 8))]"
  note t = confidence_score_stays_in_range [of ?rd "7 / 8" working_env paralen_vision]
  have pre: "num_of (dget_or ?rd (u ''confidence_score'') (PFloat 0)) = Some (7 / 8)
      \<and> (0::real) \<le> 7 / 8 \<and> (7::real) / 8 \<le> 1"
    by (simp add: dget_or_def u_def)
  have first: "\<exists>data v. validate_recognition_quality ?rd = Inr data
      \<and> dget data (u ''confidence_score'') = Some v \<and> num_of v = Some (float64 (57 / 100))"
    using t pre unfolding adjusted_example by blast
  obtain attrs where a: "validate_against_sukl working_env (ModelObj (vr_dict paralen_vision)) = Inr (ModelObj attrs)"
      "dget attrs (u ''confidence_score'') = Some (PFloat (vr_confidence_score paralen_vision))"
      "\<forall>k v. dget (vr_dict paralen_vision) k = Some v \<and> v \<noteq> PStr placeholder \<and> k \<notin> validation_fields
               \<longrightarrow> dget attrs k = Some v"
    using t by blast
  have s: "dget (vr_dict paralen_vision) (u ''strength'') = Some (PStr (u ''500 mg''))"
    "PStr (u ''500 mg'') \<noteq> PStr placeholder" "u ''strength'' \<notin> validation_fields"
    by (simp_all add: vr_dict_def paralen_vision_def dget_def u_def placeholder_def validation_fields_def)
  have "dget attrs (u ''strength'') = Some (PStr (u ''500 mg''))"
    using a(3) s by blast
  moreover have "vr_confidence_score paralen_vision = float64 (7 / 10)"
    by (simp add: paralen_vision_def)
  ultimately show ?thesis
    using first a(1,2) by auto
qed

section \<open>Workflow stages\<close>





text \<open>
  The run from the entry point ends at the entry point: the graph refuses the string
  that \<open>route_query\<close> returns, before any stage is called.
\<close>

lemma invoke_raises:
  "invoke E s = ([RouteQuery], Inl (Exn InvalidUpdateError (update_message E (route_query s))))"
  unfolding invoke_def
  by (subst run_from.simps) (simp add: apply_update_def)

lemma error_heads_nonempty:
  "error_no_image \<noteq> []" "error_search_head \<noteq> []" "error_vision_head \<noteq> []" "error_no_query \<noteq> []"
  by (simp_all add: error_no_image_def error_search_head_def error_vision_head_def error_no_query_def u_def)


lemma failed_has_error: "present (ms_error (search_failed s e))"
  by (simp add: search_failed_def present_def error_heads_nonempty)









lemma dset_nonempty: "dset d k v \<noteq> []"
  by (cases d) (auto split: if_splits)

lemma merge_nonempty: "old \<noteq> [] \<Longrightarrow> merge_metadata m old \<noteq> []"
proof (induction m arbitrary: old)
  case Nil
  then show ?case by simp
next
  case (Cons a m)
  obtain key val where a: "a = (key, val)" by (cases a)
  show ?case unfolding a merge_metadata.simps
    by (rule Cons.IH) (simp add: Cons.prems dset_nonempty)
qed

lemma merge_keeps:
  "dget old k = Some v \<Longrightarrow> v \<noteq> PStr placeholder \<Longrightarrow> dget (merge_metadata m old) k = Some v"
proof (induction m arbitrary: old)
  case Nil
  then show ?case by simp
next
  case (Cons a m)
  obtain key val where a: "a = (key, val)" by (cases a)
  show ?case unfolding a merge_metadata.simps
    by (rule Cons.IH) (use Cons.prems in \<open>auto simp: dget_dset dhas_dget\<close>)
qed

lemma dict_has_no_name:
  "validate_against_sukl E (DictObj d) = Inl (no_attribute (u ''dict'') (u ''name''))"
  by (simp add: validate_against_sukl_def getattr_def)

lemma matched_image_search_sets_error:
  assumes "search_medications E q 5 similarity_threshold = best # others"
    and "ms_medication_info s = Some old" and "old \<noteq> []"
  shows "present (ms_error (image_search E s q))"
  using assms merge_nonempty [OF assms(3), of "row_metadata best"]
  by (simp add: image_search_def Let_def dict_has_no_name failed_has_error split: option.splits)

lemma jpeg_nonempty: "jpeg_payload \<noteq> []" "py_strip jpeg_payload \<noteq> []"
  by (simp_all add: jpeg_payload_def u_def py_strip_def is_space_def)

lemma warning_medium_nonempty: "warning_medium \<noteq> []"
  by (simp add: warning_medium_def u_def)

lemma extracted_state_eq:
  "extracted_state = (initial_image_state jpeg_payload)
     \<lparr> ms_medication_info := Some (vr_dict paralen_vision),
       ms_confidence_score := float64 (7 / 10),
       ms_extracted_text := Some (extracted_text_head @ u ''PARALEN''),
       ms_safety_warnings := [warning_medium] \<rparr>"
  by (simp add: extracted_state_def extract_medication_from_image_def initial_image_state_def
      working_env_def jpeg_nonempty paralen_vision_def warning_medium_nonempty Let_def)

lemma paralen_metadata:
  "row_metadata paralen_row =
     [(u ''name'', PStr (u ''PARALEN 500MG'')),
      (u ''active_ingredient'', PStr (u ''Paracetamolum'')),
      (u ''registration_number'', PNone),
      (u ''atc_code'', PNone),
      (u ''prescription_required'', PNone)]"
  by (simp add: paralen_row_def document_of_def paralen_def no_medication_def opt_val_def)

lemma search_paralen:
  "py_strip q \<noteq> [] \<Longrightarrow> search_medications working_env q limit similarity_threshold = [paralen_row]"
  by (simp add: search_medications_def direct_similarity_search_def working_env_def
      similarity_threshold_def paralen_row_def float64_fifths float64_0_9)

lemma strip_PARALEN: "py_strip (u ''PARALEN'') = u ''PARALEN''"
  by (simp add: py_strip_def u_def is_space_def)

lemma merge_paralen:
  "merge_metadata (row_metadata paralen_row) (vr_dict paralen_vision) = merged_info"
  unfolding paralen_metadata merged_info_def
  by (simp add: vr_dict_def paralen_vision_def dhas_def dget_def u_def opt_val_def placeholder_def)

lemma search_extracted:
  "search_sukl_database working_env extracted_state =
     extracted_state
       \<lparr> ms_medication_info := Some merged_info,
         ms_sources := [PStr (u ''PARALEN 500MG'')],
         ms_error := Some (error_search_head @ [39] @ u ''dict'' @ [39]
            @ u '' object has no attribute '' @ [39] @ u ''name'' @ [39]) \<rparr>"
proof -
  have q: "image_search_query extracted_state = Inr (PStr (u ''PARALEN''))"
    by (simp add: image_search_query_def extracted_state_eq vr_dict_def paralen_vision_def
        dget_or_def u_def)
  have ty: "ms_query_type extracted_state = u ''image''" "u ''image'' \<noteq> u ''text''"
    by (simp_all add: extracted_state_eq initial_image_state_def u_def)
  have src: "dget_or (row_metadata paralen_row) (u ''name'') (PStr default_source) = PStr (u ''PARALEN 500MG'')"
    unfolding paralen_metadata by (simp add: dget_or_def)
  have ne: "merged_info \<noteq> []" "vr_dict paralen_vision \<noteq> []"
    by (simp_all add: merged_info_def vr_dict_def)
  have nb: "py_strip (u ''PARALEN'') \<noteq> []"
    unfolding strip_PARALEN by (simp add: u_def)
  have sm: "search_medications working_env (u ''PARALEN'') 5 similarity_threshold = [paralen_row]"
    using nb by (rule search_paralen)
  have env: "vision_init working_env = None" "store_init working_env = None"
    by (simp_all add: working_env_def)
  have info: "ms_medication_info extracted_state = Some (vr_dict paralen_vision)"
    by (simp add: extracted_state_eq)
  have img: "image_search working_env extracted_state (u ''PARALEN'') =
     extracted_state
       \<lparr> ms_medication_info := Some merged_info,
         ms_sources := [PStr (u ''PARALEN 500MG'')],
         ms_error := Some (error_search_head @ [39] @ u ''dict'' @ [39]
            @ u '' object has no attribute '' @ [39] @ u ''name'' @ [39]) \<rparr>"
    unfolding image_search_def sm info
    using ne
    by (simp add: Let_def merge_paralen src dict_has_no_name search_failed_def
        no_attribute_def env)
  show ?thesis
    unfolding search_sukl_database_def q ty env
    using ty(2) nb by (simp add: img)
qed

text \<open>
  Claim C3 says that an image query whose search stage finds a match at similarity
  0.6 or more merges only into absent or placeholder fields, re-runs the
  cross-validation and completes without setting \<open>error\<close>. The merge is as claimed
  (\<open>merge_keeps\<close>: a real value is never overwritten), but the stage then hands the
  information dictionary to \<open>validate_against_sukl\<close>, which reads the attribute \<open>name\<close>
  of a \<open>VisionResult\<close>; a dictionary has none, the \<open>AttributeError\<close> reaches the handler
  of the stage and \<open>error\<close> is set (\<open>matched_image_search_sets_error\<close>, for every
  environment). The theorem evaluates the stage on the extracted PARALEN package with
  one match at similarity 0.9.
\<close>

theorem image_search_with_match_sets_error:
  "ms_error extracted_state = None
   \<and> search_medications working_env (u ''PARALEN'') 5 similarity_threshold = [paralen_row]
   \<and> row_similarity paralen_row \<ge> 6 / 10
   \<and> ms_error (search_sukl_database working_env extracted_state) =
       Some (error_search_head @ [39] @ u ''dict'' @ [39] @ u '' object has no attribute ''
         @ [39] @ u ''name'' @ [39])
   \<and> ms_medication_info (search_sukl_database working_env extracted_state) = Some merged_info
   \<and> dget merged_info (u ''name'') = Some (PStr (u ''PARALEN''))
   \<and> dget merged_info (u ''active_ingredient'') = Some (PStr (u ''Paracetamolum''))"
proof -
  have "py_strip (u ''PARALEN'') \<noteq> []"
    unfolding strip_PARALEN by (simp add: u_def)
  then have "search_medications working_env (u ''PARALEN'') 5 similarity_threshold = [paralen_row]"
    by (rule search_paralen)
  moreover have "ms_error extracted_state = None"
    by (simp add: extracted_state_eq initial_image_state_def)
  moreover have "row_similarity paralen_row \<ge> 6 / 10"
    by (simp add: paralen_row_def float64_0_9)
  moreover have "dget merged_info (u ''name'') = Some (PStr (u ''PARALEN''))"
      "dget merged_info (u ''active_ingredient'') = Some (PStr (u ''Paracetamolum''))"
    by (simp_all add: merged_info_def dget_def u_def)
  ultimately show ?thesis
    by (simp add: search_extracted)
qed

section \<open>The state machine\<close>






section \<open>Safety warnings\<close>














section \<open>Disclaimer on error paths\<close>

text \<open>
  Claim C2 says that every user-facing output carries the medical disclaimer, on every
  error path. Two error paths of the code do not: when the generation call raises,
  \<open>process_text_query\<close> returns the apology alone, without rule and disclaimer; when the
  workflow fails (here: the vector store cannot be constructed), \<open>text_query\<close> answers
  with an \<open>APIResponse\<close> whose \<open>disclaimer\<close> is left at its default, the empty string.
\<close>

theorem disclaimer_missing_on_error_paths:
  "qa_run generation_down_env (preprocess_query generation_down_env (u ''Paralen''))
     = Inl (Exn ExternalError (u ''Connection error.''))
   \<and> tp_answer (process_text_query generation_down_env (u ''Paralen''))
       = apology_head @ u ''Connection error.'' @ apology_tail
   \<and> \<not> contains (tp_answer (process_text_query generation_down_env (u ''Paralen''))) (u ''---'')
   \<and> store_init store_down_env \<noteq> None
   \<and> text_query store_down_env (u ''Paralen'') = error_response api_error_text
   \<and> api_disclaimer (text_query store_down_env (u ''Paralen'')) = []"
proof -
  have q: "qa_run generation_down_env x = Inl (Exn ExternalError (u ''Connection error.''))" for x
    by (simp add: generation_down_env_def working_env_def)
  have a: "tp_answer (process_text_query generation_down_env (u ''Paralen''))
       = apology_head @ u ''Connection error.'' @ apology_tail"
    by (simp add: process_text_query_def q apology_result_def Let_def)
  have nc: "\<not> contains (apology_head @ u ''Connection error.'' @ apology_tail) (u ''---'')"
    by (simp add: apology_head_def apology_tail_def u_def)
  have st: "store_init store_down_env \<noteq> None"
    by (simp add: store_down_env_def working_env_def)
  have nb: "py_strip (u ''Paralen'') \<noteq> []"
    by (simp add: py_strip_def u_def is_space_def)
  have tq: "text_query store_down_env (u ''Paralen'') = error_response api_error_text"
    using nb by (simp add: text_query_def invoke_raises)
  show ?thesis
    using q a nc st tq by (simp add: error_response_def)
qed

end
